theory Spec2Isabelle
  imports
    Complex_Main
    "HOL-Library.Multiset"
    "HOL-Library.Char_ord"
    "HOL-Library.List_Lexorder"
    "HOL-Library.Signed_Division"
begin

section \<open>JavaScript values\<close>

text \<open>
  The request bodies of \<^verbatim>\<open>server.js\<close> are parsed JSON, and the rows that
  \<^verbatim>\<open>better-sqlite3\<close> returns are plain objects. A number is a double: only whether
  it is NaN, infinite, or which rational it is matters to the code below.
\<close>

datatype jsnum = NaN | PosInf | NegInf | Fin rat

datatype jsval =
    JUndefined
  | JNull
  | JBool bool
  | JNum jsnum
  | JStr string
  | JArr "jsval list"
  | JObj "(string \<times> jsval) list"

text \<open>An object is a finite map from keys to values; reading an absent key gives
  \<^verbatim>\<open>undefined\<close>.\<close>

type_synonym jsobj = "string \<rightharpoonup> jsval"

definition js_get :: "jsobj \<Rightarrow> string \<Rightarrow> jsval" where
  "js_get obj k = (case obj k of None \<Rightarrow> JUndefined | Some v \<Rightarrow> v)"

text \<open>ToBoolean, as used by \<^verbatim>\<open>!x\<close> and \<^verbatim>\<open>if (x)\<close>.\<close>

fun truthy :: "jsval \<Rightarrow> bool" where
  "truthy JUndefined = False"
| "truthy JNull = False"
| "truthy (JBool b) = b"
| "truthy (JNum n) = (n \<noteq> NaN \<and> n \<noteq> Fin 0)"
| "truthy (JStr s) = (s \<noteq> [])"
| "truthy (JArr xs) = True"
| "truthy (JObj kvs) = True"

text \<open>\<^verbatim>\<open>typeof x === "string"\<close>.\<close>

fun typeof_string :: "jsval \<Rightarrow> bool" where
  "typeof_string (JStr s) = True"
| "typeof_string v = False"

text \<open>\<^verbatim>\<open>S.has(x)\<close> for a \<^verbatim>\<open>Set\<close> of strings, kept in insertion order.\<close>

fun has :: "string list \<Rightarrow> jsval \<Rightarrow> bool" where
  "has S (JStr s) = (s \<in> set S)"
| "has S v = False"

definition is_int :: "rat \<Rightarrow> bool" where
  "is_int q = (of_int \<lfloor>q\<rfloor> = q)"

text \<open>\<^verbatim>\<open>Number.isInteger(x)\<close>: no coercion, so only a finite number can pass.\<close>

fun Number_isInteger :: "jsval \<Rightarrow> bool" where
  "Number_isInteger (JNum (Fin q)) = is_int q"
| "Number_isInteger v = False"

text \<open>\<^verbatim>\<open>x < k\<close> and \<^verbatim>\<open>x > k\<close> against a numeric literal. The validator reaches
  them only behind \<^verbatim>\<open>Number.isInteger\<close>, so only the finite case is spelled out.\<close>

fun num_lt :: "jsval \<Rightarrow> rat \<Rightarrow> bool" where
  "num_lt (JNum (Fin q)) k = (q < k)"
| "num_lt v k = False"

fun num_gt :: "jsval \<Rightarrow> rat \<Rightarrow> bool" where
  "num_gt (JNum (Fin q)) k = (q > k)"
| "num_gt v k = False"

text \<open>\<^verbatim>\<open>Number(x)\<close>. The conversions of the primitives are fixed by the language;
  the conversion of strings (StringToNumber) and of arrays and objects (ToPrimitive first)
  is taken as the parameter \<open>conv\<close>.\<close>

fun js_Number :: "(jsval \<Rightarrow> jsnum) \<Rightarrow> jsval \<Rightarrow> jsnum" where
  "js_Number conv JUndefined = NaN"
| "js_Number conv JNull = Fin 0"
| "js_Number conv (JBool b) = Fin (if b then 1 else 0)"
| "js_Number conv (JNum n) = n"
| "js_Number conv v = conv v"

text \<open>A destructuring default \<^verbatim>\<open>x = d\<close> applies to \<^verbatim>\<open>undefined\<close> only; the
  operator \<^verbatim>\<open>x ?? d\<close> applies to \<^verbatim>\<open>undefined\<close> and \<^verbatim>\<open>null\<close>.\<close>

fun default_to :: "jsval \<Rightarrow> jsval \<Rightarrow> jsval" where
  "default_to JUndefined d = d"
| "default_to v d = v"

fun nullish :: "jsval \<Rightarrow> jsval \<Rightarrow> jsval" where
  "nullish JUndefined d = d"
| "nullish JNull d = d"
| "nullish v d = v"

text \<open>\<^verbatim>\<open>[...S].join(", ")\<close>.\<close>

fun join :: "string \<Rightarrow> string list \<Rightarrow> string" where
  "join sep [] = []"
| "join sep [x] = x"
| "join sep (x # y # ys) = x @ sep @ join sep (y # ys)"

section \<open>The validator\<close>

definition VALID_LOCATIONS :: "string list" where
  "VALID_LOCATIONS = [''Upper loop'', ''Lower loop 1'', ''Lower loop 2'']"

definition VALID_POWER :: "string list" where
  "VALID_POWER = [''Steam'', ''Diesel'', ''Electric'']"

definition VALID_POWER_TYPES :: "string list" where
  "VALID_POWER_TYPES = [''AC'', ''DC'', ''Digital'']"

definition VALID_TYPES :: "string list" where
  "VALID_TYPES = [''Passenger'', ''Freight'', ''Special'', ''Mixed'']"

definition msg_name :: string where
  "msg_name = ''name required''"

definition msg_railway :: string where
  "msg_railway = ''railway required''"

definition msg_country :: string where
  "msg_country = ''country required (emoji flag)''"

definition msg_power :: string where
  "msg_power = ''power must be one of: '' @ join '', '' VALID_POWER"

definition msg_trainType :: string where
  "msg_trainType = ''trainType must be one of: '' @ join '', '' VALID_TYPES"

definition msg_numberOfCars :: string where
  "msg_numberOfCars = ''numberOfCars must be an integer between 0 and 100''"

definition msg_powerType :: string where
  "msg_powerType = ''powerType must be one of: '' @ join '', '' VALID_POWER_TYPES"

text \<open>The source file holds the dash of this message as the eight bytes written out here.\<close>

definition msg_years :: string where
  "msg_years = ''years required (e.g. 1950 or 1950''
     @ [CHR 0xC3, CHR 0xA2, CHR 0xE2, CHR 0x82, CHR 0xAC, CHR 0xE2, CHR 0x80, CHR 0x9C]
     @ ''1960)''"

definition msg_location :: string where
  "msg_location = ''location must be one of: '' @ join '', '' VALID_LOCATIONS"

definition msg_notes :: string where
  "msg_notes = ''notes must be a string''"

definition msg_owner :: string where
  "msg_owner = ''owner must be a string''"

text \<open>\<^verbatim>\<open>validateTrain(body)\<close> (server.js, lines 92 to 113): the message of the first
  failing check, or \<open>None\<close> for the \<^verbatim>\<open>null\<close> of a valid record.\<close>

definition validateTrain :: "jsobj \<Rightarrow> string option" where
  "validateTrain body =
    (let name = js_get body ''name'';
         railway = js_get body ''railway'';
         country = js_get body ''country'';
         power = js_get body ''power'';
         trainType = js_get body ''trainType'';
         numberOfCars = js_get body ''numberOfCars'';
         powerType = js_get body ''powerType'';
         years = js_get body ''years'';
         notes = default_to (js_get body ''notes'') (JStr []);
         owner = default_to (js_get body ''owner'') (JStr []);
         location = js_get body ''location''
     in if \<not> truthy name \<or> \<not> typeof_string name then Some msg_name
        else if \<not> truthy railway \<or> \<not> typeof_string railway then Some msg_railway
        else if \<not> truthy country \<or> \<not> typeof_string country then Some msg_country
        else if \<not> truthy power \<or> \<not> has VALID_POWER power then Some msg_power
        else if \<not> truthy trainType \<or> \<not> has VALID_TYPES trainType then Some msg_trainType
        else if \<not> Number_isInteger numberOfCars \<or> num_lt numberOfCars 0 \<or> num_gt numberOfCars 100
          then Some msg_numberOfCars
        else if \<not> truthy powerType \<or> \<not> has VALID_POWER_TYPES powerType then Some msg_powerType
        else if \<not> truthy years \<or> \<not> typeof_string years then Some msg_years
        else if \<not> truthy location \<or> \<not> has VALID_LOCATIONS location then Some msg_location
        else if \<not> typeof_string notes then Some msg_notes
        else if \<not> typeof_string owner then Some msg_owner
        else None)"

subsection \<open>The rules as the specification words them\<close>

text \<open>The validator contract of the specification: name, railway and country are
  non-empty strings; power, trainType, powerType and location belong to their fixed sets;
  numberOfCars is an integer in [0,100]; years is a non-empty string; notes and owner, if
  present, are strings.\<close>

fun nonempty_string :: "jsval \<Rightarrow> bool" where
  "nonempty_string (JStr s) = (s \<noteq> [])"
| "nonempty_string v = False"

fun one_of :: "string list \<Rightarrow> jsval \<Rightarrow> bool" where
  "one_of S (JStr s) = (s \<in> set S)"
| "one_of S v = False"

fun integer_between :: "rat \<Rightarrow> rat \<Rightarrow> jsval \<Rightarrow> bool" where
  "integer_between lo hi (JNum (Fin q)) = (is_int q \<and> lo \<le> q \<and> q \<le> hi)"
| "integer_between lo hi v = False"

fun string_if_present :: "jsval \<Rightarrow> bool" where
  "string_if_present JUndefined = True"
| "string_if_present (JStr s) = True"
| "string_if_present v = False"

type_synonym rule = "(jsobj \<Rightarrow> bool) \<times> string"

definition rule_name :: rule where
  "rule_name = (\<lambda>b. nonempty_string (js_get b ''name''), msg_name)"

definition rule_railway :: rule where
  "rule_railway = (\<lambda>b. nonempty_string (js_get b ''railway''), msg_railway)"

definition rule_country :: rule where
  "rule_country = (\<lambda>b. nonempty_string (js_get b ''country''), msg_country)"

definition rule_power :: rule where
  "rule_power = (\<lambda>b. one_of VALID_POWER (js_get b ''power''), msg_power)"

definition rule_trainType :: rule where
  "rule_trainType = (\<lambda>b. one_of VALID_TYPES (js_get b ''trainType''), msg_trainType)"

definition rule_powerType :: rule where
  "rule_powerType = (\<lambda>b. one_of VALID_POWER_TYPES (js_get b ''powerType''), msg_powerType)"

definition rule_numberOfCars :: rule where
  "rule_numberOfCars = (\<lambda>b. integer_between 0 100 (js_get b ''numberOfCars''), msg_numberOfCars)"

definition rule_years :: rule where
  "rule_years = (\<lambda>b. nonempty_string (js_get b ''years''), msg_years)"

definition rule_location :: rule where
  "rule_location = (\<lambda>b. one_of VALID_LOCATIONS (js_get b ''location''), msg_location)"

definition rule_notes :: rule where
  "rule_notes = (\<lambda>b. string_if_present (js_get b ''notes''), msg_notes)"

definition rule_owner :: rule where
  "rule_owner = (\<lambda>b. string_if_present (js_get b ''owner''), msg_owner)"

text \<open>The message of the first rule of a list that the record violates.\<close>

fun first_violation :: "rule list \<Rightarrow> jsobj \<Rightarrow> string option" where
  "first_violation [] b = None"
| "first_violation (r # rs) b = (if fst r b then first_violation rs b else Some (snd r))"

text \<open>The order in which the specification lists the rules.\<close>

definition spec_order :: "rule list" where
  "spec_order = [rule_name, rule_railway, rule_country, rule_power, rule_trainType,
     rule_powerType, rule_numberOfCars, rule_years, rule_location, rule_notes, rule_owner]"

text \<open>The order in which \<^verbatim>\<open>validateTrain\<close> checks them.\<close>

definition code_order :: "rule list" where
  "code_order = [rule_name, rule_railway, rule_country, rule_power, rule_trainType,
     rule_numberOfCars, rule_powerType, rule_years, rule_location, rule_notes, rule_owner]"

text \<open>A record that is fine up to trainType and has both a bad numberOfCars (500) and a
  bad powerType.\<close>

definition two_faults :: jsobj where
  "two_faults = [''name'' \<mapsto> JStr ''Rheingold'', ''railway'' \<mapsto> JStr ''DB'',
     ''country'' \<mapsto> JStr ''DE'', ''power'' \<mapsto> JStr ''Electric'',
     ''trainType'' \<mapsto> JStr ''Passenger'', ''numberOfCars'' \<mapsto> JNum (Fin 500),
     ''powerType'' \<mapsto> JStr ''Analog'', ''years'' \<mapsto> JStr ''1962'',
     ''location'' \<mapsto> JStr ''Upper loop'']"

text \<open>A record whose only faults are an empty \<^verbatim>\<open>years\<close> and an unknown
  \<^verbatim>\<open>location\<close>.\<close>

definition late_faults :: jsobj where
  "late_faults = [''name'' \<mapsto> JStr ''Rheingold'', ''railway'' \<mapsto> JStr ''DB'',
     ''country'' \<mapsto> JStr ''DE'', ''power'' \<mapsto> JStr ''Electric'',
     ''trainType'' \<mapsto> JStr ''Passenger'', ''numberOfCars'' \<mapsto> JNum (Fin 7),
     ''powerType'' \<mapsto> JStr ''AC'', ''years'' \<mapsto> JStr [],
     ''location'' \<mapsto> JStr ''Roundhouse'']"

section \<open>The store\<close>

text \<open>
  The two tables of \<^verbatim>\<open>db.js\<close>, each a list of rows in insertion order. The descriptive
  columns are shared by both tables. Four column names are changed because two records
  cannot share a field name, \<open>id\<close> and \<open>power\<close> are constants of HOL and
  \<open>notes\<close> is a keyword: the columns \<^verbatim>\<open>power\<close> and \<^verbatim>\<open>notes\<close> are
  \<open>power_col\<close> and \<open>notes_col\<close>, \<^verbatim>\<open>trains.id\<close> is \<open>t_id\<close> and
  \<^verbatim>\<open>train_runs.id\<close> is \<open>run_id\<close>. Text is compared byte by byte, as SQLite's
  default collation does. \<^verbatim>\<open>trains.id\<close> is \<^verbatim>\<open>TEXT PRIMARY KEY\<close> without
  \<^verbatim>\<open>NOT NULL\<close>, which in SQLite admits NULL (\<open>None\<close>).
\<close>

record snapshot =
  name :: string
  railway :: string
  country :: string
  power_col :: string
  trainType :: string
  numberOfCars :: int
  powerType :: string
  years :: string
  notes_col :: string
  owner :: string
  location :: string

record train = snapshot +
  t_id :: "string option"
  active :: bool
  updated_at :: string

record run_view = snapshot +
  train_id :: string
  start_time :: string
  stop_time :: "string option"

record run = run_view +
  run_id :: string

text \<open>\<^verbatim>\<open>run()\<close> throws when a parameter cannot be bound or a constraint fails; the two
  are not told apart here.\<close>

datatype error = StatementFailed

definition and_then :: "error + 'a \<Rightarrow> ('a \<Rightarrow> error + 'b) \<Rightarrow> error + 'b" where
  "and_then r f = (case r of Inl e \<Rightarrow> Inl e | Inr x \<Rightarrow> f x)"

text \<open>Binding a JavaScript value to a TEXT column: a string is stored as it is and
  \<^verbatim>\<open>null\<close> as NULL. What the driver and the column affinity make of any other value
  (the text of a number, an exception) is the parameter \<open>other\<close>.\<close>

fun bind_text :: "(jsval \<Rightarrow> error + string option) \<Rightarrow> jsval \<Rightarrow> error + string option" where
  "bind_text other (JStr s) = Inr (Some s)"
| "bind_text other JNull = Inr None"
| "bind_text other v = other v"

text \<open>The same for a column declared \<^verbatim>\<open>NOT NULL\<close>.\<close>

definition bind_text_nn :: "(jsval \<Rightarrow> error + string option) \<Rightarrow> jsval \<Rightarrow> error + string" where
  "bind_text_nn other v =
     and_then (bind_text other v) (\<lambda>x. case x of None \<Rightarrow> Inl StatementFailed | Some s \<Rightarrow> Inr s)"

text \<open>Binding to the column \<^verbatim>\<open>numberOfCars INTEGER NOT NULL\<close>. Every caller passes a
  value that \<^verbatim>\<open>validateTrain\<close> has checked or that was read from this column, which is
  an integer; the column type \<open>int\<close> has no room for anything else, and the failing
  branches are not reached (lemmas \<open>bind_snapshot_post_row\<close>,
  \<open>bind_snapshot_select_all\<close> and \<open>patch_running_ok\<close>).\<close>

fun bind_integer_nn :: "jsval \<Rightarrow> error + int" where
  "bind_integer_nn (JNum (Fin q)) = (if is_int q then Inr \<lfloor>q\<rfloor> else Inl StatementFailed)"
| "bind_integer_nn v = Inl StatementFailed"

text \<open>The eleven descriptive parameters \<^verbatim>\<open>@name\<close> to \<^verbatim>\<open>@location\<close> that
  \<^verbatim>\<open>stmtInsert\<close>, \<^verbatim>\<open>stmtInsertRun\<close> and \<^verbatim>\<open>stmtUpdate\<close> all bind.\<close>

definition bind_snapshot :: "(jsval \<Rightarrow> error + string option) \<Rightarrow> jsobj \<Rightarrow> error + snapshot" where
  "bind_snapshot other params =
     and_then (bind_text_nn other (js_get params ''name'')) (\<lambda>v_name.
     and_then (bind_text_nn other (js_get params ''railway'')) (\<lambda>v_railway.
     and_then (bind_text_nn other (js_get params ''country'')) (\<lambda>v_country.
     and_then (bind_text_nn other (js_get params ''power'')) (\<lambda>v_power.
     and_then (bind_text_nn other (js_get params ''trainType'')) (\<lambda>v_trainType.
     and_then (bind_integer_nn (js_get params ''numberOfCars'')) (\<lambda>v_numberOfCars.
     and_then (bind_text_nn other (js_get params ''powerType'')) (\<lambda>v_powerType.
     and_then (bind_text_nn other (js_get params ''years'')) (\<lambda>v_years.
     and_then (bind_text_nn other (js_get params ''notes'')) (\<lambda>v_notes.
     and_then (bind_text_nn other (js_get params ''owner'')) (\<lambda>v_owner.
     and_then (bind_text_nn other (js_get params ''location'')) (\<lambda>v_location.
       Inr \<lparr>name = v_name, railway = v_railway, country = v_country, power_col = v_power,
            trainType = v_trainType, numberOfCars = v_numberOfCars, powerType = v_powerType,
            years = v_years, notes_col = v_notes, owner = v_owner,
            location = v_location\<rparr>)))))))))))"

text \<open>A stored text as a JavaScript value.\<close>

fun js_text :: "string option \<Rightarrow> jsval" where
  "js_text None = JNull"
| "js_text (Some s) = JStr s"

definition js_int :: "int \<Rightarrow> jsval" where
  "js_int n = JNum (Fin (of_int n))"

text \<open>\<^verbatim>\<open>ORDER BY\<close>: a stable insertion sort by a comparison. SQL leaves the order of
  rows with equal keys open; this model keeps them in table order.\<close>

fun insort_by :: "('a \<Rightarrow> 'a \<Rightarrow> bool) \<Rightarrow> 'a \<Rightarrow> 'a list \<Rightarrow> 'a list" where
  "insort_by le x [] = [x]"
| "insort_by le x (y # ys) = (if le x y then x # y # ys else y # insort_by le x ys)"

definition sort_by :: "('a \<Rightarrow> 'a \<Rightarrow> bool) \<Rightarrow> 'a list \<Rightarrow> 'a list" where
  "sort_by le xs = foldr (insort_by le) xs []"

text \<open>\<^verbatim>\<open>LIMIT 1\<close>.\<close>

fun limit1 :: "'a list \<Rightarrow> 'a option" where
  "limit1 [] = None"
| "limit1 (x # xs) = Some x"

subsection \<open>The prepared statements on \<^verbatim>\<open>trains\<close>\<close>

text \<open>\<^verbatim>\<open>ORDER BY location ASC, updated_at DESC\<close>.\<close>

definition running_order :: "train \<Rightarrow> train \<Rightarrow> bool" where
  "running_order a b =
     (location a < location b \<or> (location a = location b \<and> updated_at b \<le> updated_at a))"

text \<open>The twelve columns that \<^verbatim>\<open>stmtListRunning\<close> selects.\<close>

definition select_running :: "train \<Rightarrow> (string \<times> jsval) list" where
  "select_running t =
     [(''id'', js_text (t_id t)), (''name'', JStr (name t)), (''railway'', JStr (railway t)),
      (''country'', JStr (country t)), (''power'', JStr (power_col t)),
      (''trainType'', JStr (trainType t)), (''numberOfCars'', js_int (numberOfCars t)),
      (''powerType'', JStr (powerType t)), (''years'', JStr (years t)),
      (''notes'', JStr (notes_col t)), (''location'', JStr (location t)),
      (''updated_at'', JStr (updated_at t))]"

text \<open>The rows \<^verbatim>\<open>WHERE active = 1\<close> in the order of the statement, before the
  projection.\<close>

definition running_trains :: "train list \<Rightarrow> train list" where
  "running_trains ts = sort_by running_order (filter active ts)"

definition stmtListRunning :: "train list \<Rightarrow> (string \<times> jsval) list list" where
  "stmtListRunning ts = map select_running (running_trains ts)"

text \<open>\<^verbatim>\<open>SELECT *\<close>: the row object that \<^verbatim>\<open>stmtGetById.get\<close> returns.\<close>

definition select_all :: "train \<Rightarrow> (string \<times> jsval) list" where
  "select_all t =
     [(''id'', js_text (t_id t)), (''name'', JStr (name t)), (''railway'', JStr (railway t)),
      (''country'', JStr (country t)), (''power'', JStr (power_col t)),
      (''trainType'', JStr (trainType t)), (''numberOfCars'', js_int (numberOfCars t)),
      (''powerType'', JStr (powerType t)), (''years'', JStr (years t)),
      (''notes'', JStr (notes_col t)), (''owner'', JStr (owner t)),
      (''location'', JStr (location t)), (''active'', js_int (if active t then 1 else 0)),
      (''updated_at'', JStr (updated_at t))]"

definition stmtGetById :: "string \<Rightarrow> train list \<Rightarrow> train option" where
  "stmtGetById i ts = find (\<lambda>t. t_id t = Some i) ts"

text \<open>\<^verbatim>\<open>stmtInsert\<close>: binds \<^verbatim>\<open>@id\<close>, the descriptive parameters and
  \<^verbatim>\<open>@updated_at\<close> from the object it is given (keys it does not name are ignored),
  sets \<^verbatim>\<open>active\<close> to 1, and fails on a primary key that is already there.\<close>

definition stmtInsert ::
  "(jsval \<Rightarrow> error + string option) \<Rightarrow> jsobj \<Rightarrow> train list \<Rightarrow> error + train list" where
  "stmtInsert other row ts =
     and_then (bind_text other (js_get row ''id'')) (\<lambda>i.
     and_then (bind_snapshot other row) (\<lambda>snap.
     and_then (bind_text_nn other (js_get row ''updated_at'')) (\<lambda>u.
       if i \<noteq> None \<and> i \<in> set (map t_id ts) then Inl StatementFailed
       else Inr (ts @ [snapshot.extend snap (train.fields i True u)]))))"

text \<open>\<^verbatim>\<open>stmtUpdate\<close>: sets the descriptive columns and \<^verbatim>\<open>updated_at\<close> of the rows
  \<^verbatim>\<open>WHERE id=@id\<close>; \<^verbatim>\<open>id\<close> and \<^verbatim>\<open>active\<close> are not in its \<^verbatim>\<open>SET\<close> list.\<close>

definition stmtUpdate ::
  "(jsval \<Rightarrow> error + string option) \<Rightarrow> jsobj \<Rightarrow> train list \<Rightarrow> error + train list" where
  "stmtUpdate other merged ts =
     and_then (bind_snapshot other merged) (\<lambda>snap.
     and_then (bind_text_nn other (js_get merged ''updated_at'')) (\<lambda>u.
     and_then (bind_text other (js_get merged ''id'')) (\<lambda>i.
       Inr (map (\<lambda>t. if i \<noteq> None \<and> t_id t = i
                      then snapshot.extend snap (train.fields (t_id t) (active t) u)
                      else t) ts))))"

definition stmtDeactivate :: "string \<Rightarrow> string \<Rightarrow> train list \<Rightarrow> train list" where
  "stmtDeactivate i u ts =
     map (\<lambda>t. if t_id t = Some i then t\<lparr>active := False, updated_at := u\<rparr> else t) ts"

subsection \<open>The prepared statements on \<^verbatim>\<open>train_runs\<close>\<close>

text \<open>\<^verbatim>\<open>ORDER BY start_time DESC\<close> and \<^verbatim>\<open>ORDER BY start_time ASC\<close>.\<close>

definition start_desc :: "'a run_view_scheme \<Rightarrow> 'a run_view_scheme \<Rightarrow> bool" where
  "start_desc a b = (start_time b \<le> start_time a)"

definition start_asc :: "'a run_view_scheme \<Rightarrow> 'a run_view_scheme \<Rightarrow> bool" where
  "start_asc a b = (start_time a \<le> start_time b)"

definition stmtFindOpenRun :: "string \<Rightarrow> run list \<Rightarrow> string option" where
  "stmtFindOpenRun i rs =
     map_option run_id
       (limit1 (sort_by start_desc (filter (\<lambda>r. train_id r = i \<and> stop_time r = None) rs)))"

definition stmtFindLatestRun :: "string \<Rightarrow> run list \<Rightarrow> string option" where
  "stmtFindLatestRun i rs =
     map_option run_id (limit1 (sort_by start_desc (filter (\<lambda>r. train_id r = i) rs)))"

definition stmtUpdateRunStop :: "string \<Rightarrow> string \<Rightarrow> run list \<Rightarrow> run list" where
  "stmtUpdateRunStop i st rs =
     map (\<lambda>r. if run_id r = i then r\<lparr>stop_time := Some st\<rparr> else r) rs"

text \<open>\<^verbatim>\<open>stmtInsertRun\<close>. Both callers pass strings for \<^verbatim>\<open>id\<close>, \<^verbatim>\<open>train_id\<close> and
  \<^verbatim>\<open>start_time\<close> and a string or \<^verbatim>\<open>null\<close> for \<^verbatim>\<open>stop_time\<close>; the descriptive
  parameters are copied from an object \<open>src\<close>.\<close>

definition stmtInsertRun ::
  "(jsval \<Rightarrow> error + string option) \<Rightarrow> string \<Rightarrow> string \<Rightarrow> jsobj \<Rightarrow> string \<Rightarrow> string option
     \<Rightarrow> run list \<Rightarrow> error + run list" where
  "stmtInsertRun other i tid src start stop rs =
     and_then (bind_snapshot other src) (\<lambda>snap.
       if i \<in> set (map run_id rs) then Inl StatementFailed
       else Inr (rs @ [run_view.extend
                         (snapshot.extend snap (run_view.fields tid start stop))
                         (run.fields i)]))"

text \<open>\<^verbatim>\<open>stmtRunsByDate\<close>. SQLite's \<^verbatim>\<open>date()\<close> is the parameter \<open>sql_date\<close>
  (\<open>None\<close> for NULL). The statement selects every column but \<^verbatim>\<open>id\<close>.\<close>

definition stmtRunsByDate :: "(string \<Rightarrow> string option) \<Rightarrow> string \<Rightarrow> run list \<Rightarrow> run_view list" where
  "stmtRunsByDate sql_date d rs =
     map run_view.truncate
       (sort_by start_asc (filter (\<lambda>r. sql_date (start_time r) = Some d) rs))"

section \<open>The server\<close>

text \<open>A message is the object that \<^verbatim>\<open>JSON.stringify\<close> serialises; a client is a
  WebSocket with its \<^verbatim>\<open>readyState\<close> (1 is OPEN) and the messages sent to it so far, in
  order. The state of the server is the two tables and \<^verbatim>\<open>wss.clients\<close>.\<close>

record message =
  event :: string
  payload :: "(string \<times> jsval) list list"

record client =
  readyState :: nat
  outbox :: "message list"

record server =
  trains :: "train list"
  train_runs :: "run list"
  clients :: "client list"

record duration =
  minutes :: int
  hours :: int
  remainderMinutes :: int

text \<open>A row of the report: the selected columns and the computed duration, \<open>None\<close> when
  its three numbers are NaN.\<close>

record report_row = run_view +
  duration :: "duration option"

datatype response =
    Json_trains "(string \<times> jsval) list list"
  | Created string
  | Ok_true
  | Bad string
  | Not_found
  | Server_error
  | Json_runs "report_row list"

text \<open>\<^verbatim>\<open>broadcast(event, payload)\<close>: one \<^verbatim>\<open>send\<close> to every client that is OPEN.\<close>

definition broadcast :: "string \<Rightarrow> (string \<times> jsval) list list \<Rightarrow> client list \<Rightarrow> client list" where
  "broadcast ev pl cs =
     map (\<lambda>c. if readyState c = 1 then c\<lparr>outbox := outbox c @ [\<lparr>event = ev, payload = pl\<rparr>]\<rparr>
               else c) cs"

text \<open>The last two lines that the three mutating handlers share.\<close>

definition publish :: "server \<Rightarrow> server" where
  "publish s = s\<lparr>clients := broadcast ''running:update'' (stmtListRunning (trains s)) (clients s)\<rparr>"

text \<open>\<^verbatim>\<open>GET /api/running\<close>.\<close>

definition get_running :: "server \<Rightarrow> response" where
  "get_running s = Json_trains (stmtListRunning (trains s))"

text \<open>\<^verbatim>\<open>POST /api/running\<close>. \<open>uuid1\<close> and \<open>uuid2\<close> are the two results of
  \<^verbatim>\<open>crypto.randomUUID()\<close> and \<open>now\<close> is \<^verbatim>\<open>new Date().toISOString()\<close>. A statement
  that throws ends the handler with status 500 and leaves what was written before it.
  \<open>normalize\<close> is the object \<^verbatim>\<open>normalized\<close> and \<open>post_row\<close> the object
  \<^verbatim>\<open>row\<close>: in a spread, a later key replaces an earlier one, so the keys of the body
  come after \<^verbatim>\<open>id\<close> and \<^verbatim>\<open>updated_at\<close>.\<close>

definition normalize :: "(jsval \<Rightarrow> jsnum) \<Rightarrow> jsobj \<Rightarrow> jsobj" where
  "normalize conv body =
     body(''numberOfCars'' \<mapsto> JNum (js_Number conv (js_get body ''numberOfCars'')),
          ''powerType'' \<mapsto> js_get body ''powerType'')"

definition post_row :: "string \<Rightarrow> string \<Rightarrow> jsobj \<Rightarrow> jsobj" where
  "post_row uuid1 now normalized =
     ([''id'' \<mapsto> JStr uuid1, ''updated_at'' \<mapsto> JStr now] ++ normalized)
       (''notes'' \<mapsto> nullish (js_get normalized ''notes'') (JStr []),
        ''owner'' \<mapsto> nullish (js_get normalized ''owner'') (JStr []))"

definition post_running ::
  "(jsval \<Rightarrow> jsnum) \<Rightarrow> (jsval \<Rightarrow> error + string option) \<Rightarrow> jsobj \<Rightarrow> string \<Rightarrow> string \<Rightarrow> string
     \<Rightarrow> server \<Rightarrow> response \<times> server" where
  "post_running conv other body uuid1 uuid2 now s =
    (let normalized = normalize conv body
     in case validateTrain normalized of
          Some err \<Rightarrow> (Bad err, s)
        | None \<Rightarrow>
           (let row = post_row uuid1 now normalized
            in case stmtInsert other row (trains s) of
                 Inl e \<Rightarrow> (Server_error, s)
               | Inr ts \<Rightarrow>
                  (let s1 = s\<lparr>trains := ts\<rparr>
                   in case stmtInsertRun other uuid2 uuid1 row now None (train_runs s1) of
                        Inl e \<Rightarrow> (Server_error, s1)
                      | Inr rs \<Rightarrow> (Created uuid1, publish (s1\<lparr>train_runs := rs\<rparr>)))))"

text \<open>\<^verbatim>\<open>PATCH /api/running/:id\<close>.\<close>

text \<open>The object \<^verbatim>\<open>merged\<close> before validation: the row, then the body, then
  \<^verbatim>\<open>id\<close>, and the converted \<^verbatim>\<open>numberOfCars\<close> when the body has one.\<close>

definition patch_merged :: "(jsval \<Rightarrow> jsnum) \<Rightarrow> train \<Rightarrow> string \<Rightarrow> jsobj \<Rightarrow> jsobj" where
  "patch_merged conv existing i body =
     (let merged = (map_of (select_all existing) ++ body)(''id'' \<mapsto> JStr i)
      in if js_get body ''numberOfCars'' \<noteq> JUndefined
         then merged(''numberOfCars'' \<mapsto> JNum (js_Number conv (js_get body ''numberOfCars'')))
         else merged)"

definition patch_running ::
  "(jsval \<Rightarrow> jsnum) \<Rightarrow> (jsval \<Rightarrow> error + string option) \<Rightarrow> string \<Rightarrow> jsobj \<Rightarrow> string
     \<Rightarrow> server \<Rightarrow> response \<times> server" where
  "patch_running conv other i body now s =
    (case stmtGetById i (trains s) of
       None \<Rightarrow> (Not_found, s)
     | Some existing \<Rightarrow>
        (let merged = patch_merged conv existing i body
         in case validateTrain merged of
              Some err \<Rightarrow> (Bad err, s)
            | None \<Rightarrow>
               (case stmtUpdate other (merged(''updated_at'' \<mapsto> JStr now)) (trains s) of
                  Inl e \<Rightarrow> (Server_error, s)
                | Inr ts \<Rightarrow> (Ok_true, publish (s\<lparr>trains := ts\<rparr>)))))"

text \<open>The ledger part of \<^verbatim>\<open>DELETE /api/running/:id\<close> (server.js, lines 201 to 228).
  \<^verbatim>\<open>if (fallbackId)\<close> is a truthiness test, which an empty id would fail.\<close>

definition close_run ::
  "(jsval \<Rightarrow> error + string option) \<Rightarrow> string \<Rightarrow> train \<Rightarrow> string \<Rightarrow> string \<Rightarrow> run list
     \<Rightarrow> error + run list" where
  "close_run other i existing uuid now rs =
    (case stmtFindOpenRun i rs of
       Some openRun \<Rightarrow> Inr (stmtUpdateRunStop openRun now rs)
     | None \<Rightarrow>
        (case stmtFindLatestRun i rs of
           Some fallbackId \<Rightarrow>
             if fallbackId \<noteq> [] then Inr (stmtUpdateRunStop fallbackId now rs)
             else stmtInsertRun other uuid i (map_of (select_all existing)) now (Some now) rs
         | None \<Rightarrow> stmtInsertRun other uuid i (map_of (select_all existing)) now (Some now) rs))"

text \<open>\<^verbatim>\<open>DELETE /api/running/:id\<close>.\<close>

definition delete_running ::
  "(jsval \<Rightarrow> error + string option) \<Rightarrow> string \<Rightarrow> string \<Rightarrow> string
     \<Rightarrow> server \<Rightarrow> response \<times> server" where
  "delete_running other i uuid now s =
    (case stmtGetById i (trains s) of
       None \<Rightarrow> (Not_found, s)
     | Some existing \<Rightarrow>
        (let s1 = s\<lparr>trains := stmtDeactivate i now (trains s)\<rparr>
         in case close_run other i existing uuid now (train_runs s1) of
              Inl e \<Rightarrow> (Server_error, s1)
            | Inr rs \<Rightarrow> (Ok_true, publish (s1\<lparr>train_runs := rs\<rparr>))))"

subsection \<open>The report\<close>

text \<open>\<^verbatim>\<open>Math.round\<close> rounds to the nearest integer, a half upwards.\<close>

definition Math_round :: "rat \<Rightarrow> int" where
  "Math_round x = \<lfloor>x + 1 / 2\<rfloor>"

text \<open>The body of the \<^verbatim>\<open>rows.map\<close> callback. \<open>parse\<close> is \<^verbatim>\<open>new Date(string)\<close> in
  milliseconds, \<open>None\<close> for an invalid date, whose NaN reaches all three numbers;
  \<open>now_ms\<close> is \<^verbatim>\<open>new Date()\<close>. \<^verbatim>\<open>r.stop_time ? ... : ...\<close> is a truthiness test.\<close>

definition report_duration :: "(string \<Rightarrow> int option) \<Rightarrow> int \<Rightarrow> run_view \<Rightarrow> duration option" where
  "report_duration parse now_ms r =
    (case parse (start_time r) of
       None \<Rightarrow> None
     | Some start \<Rightarrow>
        (case (case stop_time r of
                 Some st \<Rightarrow> if st \<noteq> [] then parse st else Some now_ms
               | None \<Rightarrow> Some now_ms) of
           None \<Rightarrow> None
         | Some end_ms \<Rightarrow>
            (let durationMinutes = max 0 (Math_round (of_int (end_ms - start) / 60000))
             in Some \<lparr>minutes = durationMinutes,
                      hours = \<lfloor>(of_int durationMinutes :: rat) / 60\<rfloor>,
                      remainderMinutes = durationMinutes smod 60\<rparr>)))"

definition is_digit :: "char \<Rightarrow> bool" where
  "is_digit c = (CHR ''0'' \<le> c \<and> c \<le> CHR ''9'')"

text \<open>\<^verbatim>\<open>/^\d{4}-\d{2}-\d{2}$/.test(date)\<close>.\<close>

fun date_regex :: "string \<Rightarrow> bool" where
  "date_regex [y1, y2, y3, y4, d1, m1, m2, d2, a1, a2] =
     (is_digit y1 \<and> is_digit y2 \<and> is_digit y3 \<and> is_digit y4 \<and> d1 = CHR ''-'' \<and>
      is_digit m1 \<and> is_digit m2 \<and> d2 = CHR ''-'' \<and> is_digit a1 \<and> is_digit a2)"
| "date_regex s = False"

definition msg_date :: string where
  "msg_date = ''date query param (YYYY-MM-DD) is required''"

text \<open>\<^verbatim>\<open>GET /api/reports/runs\<close>, for a \<^verbatim>\<open>date\<close> query parameter that is absent or
  a string.\<close>

definition get_reports_runs ::
  "(string \<Rightarrow> string option) \<Rightarrow> (string \<Rightarrow> int option) \<Rightarrow> int \<Rightarrow> string option
     \<Rightarrow> server \<Rightarrow> response" where
  "get_reports_runs sql_date parse now_ms date s =
    (case date of
       None \<Rightarrow> Bad msg_date
     | Some d \<Rightarrow>
        if d = [] \<or> \<not> date_regex d then Bad msg_date
        else Json_runs
               (map (\<lambda>r. run_view.extend r (report_row.fields (report_duration parse now_ms r)))
                  (stmtRunsByDate sql_date d (train_runs s))))"

subsection \<open>Connections and the sequence of events\<close>

text \<open>\<^verbatim>\<open>wss.on("connection")\<close>: the new socket is OPEN, joins \<^verbatim>\<open>wss.clients\<close> and is
  sent the current list at once.\<close>

definition connection :: "server \<Rightarrow> server" where
  "connection s =
     s\<lparr>clients := clients s @
          [\<lparr>readyState = 1,
            outbox = [\<lparr>event = ''running:init'', payload = stmtListRunning (trains s)\<rparr>]\<rparr>]\<rparr>"

text \<open>The server is single-threaded: it handles one event after the other, each to its
  end. An event is a request with the values its handler draws from the environment, a new
  connection, or a change of the \<^verbatim>\<open>readyState\<close> of the k-th socket.\<close>

datatype event =
    POST jsobj string string string
  | PATCH string jsobj string
  | DELETE string string string
  | CONNECT
  | SOCKET nat nat

fun step ::
  "(jsval \<Rightarrow> jsnum) \<Rightarrow> (jsval \<Rightarrow> error + string option) \<Rightarrow> server \<Rightarrow> event \<Rightarrow> server" where
  "step conv other s (POST body uuid1 uuid2 now) = snd (post_running conv other body uuid1 uuid2 now s)"
| "step conv other s (PATCH i body now) = snd (patch_running conv other i body now s)"
| "step conv other s (DELETE i uuid now) = snd (delete_running other i uuid now s)"
| "step conv other s CONNECT = connection s"
| "step conv other s (SOCKET k st) =
     (if k < length (clients s)
      then s\<lparr>clients := (clients s)[k := (clients s ! k)\<lparr>readyState := st\<rparr>]\<rparr>
      else s)"

definition run_events ::
  "(jsval \<Rightarrow> jsnum) \<Rightarrow> (jsval \<Rightarrow> error + string option) \<Rightarrow> server \<Rightarrow> event list \<Rightarrow> server" where
  "run_events conv other s es = foldl (step conv other) s es"

section \<open>Vocabulary of the report\<close>

text \<open>A run started on the day \<open>d\<close>; the duration as the specification computes it from
  the two instants, in milliseconds (\<open>round\<close> is the nearest integer, a half upwards);
  and the rows of the report for a day.\<close>

definition started_on :: "(string \<Rightarrow> string option) \<Rightarrow> string \<Rightarrow> run \<Rightarrow> bool" where
  "started_on sql_date d r = (sql_date (start_time r) = Some d)"

definition spec_duration :: "int \<Rightarrow> int \<Rightarrow> duration" where
  "spec_duration start end_ms =
     (let durationMinutes = max 0 (round (of_int (end_ms - start) / (60000 :: rat)))
      in \<lparr>minutes = durationMinutes, hours = durationMinutes div 60,
          remainderMinutes = durationMinutes mod 60\<rparr>)"

definition report_rows ::
  "(string \<Rightarrow> string option) \<Rightarrow> (string \<Rightarrow> int option) \<Rightarrow> int \<Rightarrow> string \<Rightarrow> run list
     \<Rightarrow> report_row list" where
  "report_rows sql_date parse now_ms d rs =
     map (\<lambda>r. run_view.extend r (report_row.fields (report_duration parse now_ms r)))
       (stmtRunsByDate sql_date d rs)"

section \<open>Vocabulary of the ledger\<close>

text \<open>The open runs of a train, all its runs, a ledger in which one run has its
  \<^verbatim>\<open>stop_time\<close> set and nothing else is touched, and the run that
  \<^verbatim>\<open>stmtInsertRun\<close> builds from the row of a train.\<close>

definition open_runs :: "string \<Rightarrow> run list \<Rightarrow> run list" where
  "open_runs T rs = filter (\<lambda>r. train_id r = T \<and> stop_time r = None) rs"

definition runs_of :: "string \<Rightarrow> run list \<Rightarrow> run list" where
  "runs_of T rs = filter (\<lambda>r. train_id r = T) rs"

definition set_stop :: "run \<Rightarrow> string \<Rightarrow> run list \<Rightarrow> run list" where
  "set_stop r st rs = map (\<lambda>x. if x = r then x\<lparr>stop_time := Some st\<rparr> else x) rs"

definition new_run :: "'a snapshot_scheme \<Rightarrow> string \<Rightarrow> string \<Rightarrow> string \<Rightarrow> string option \<Rightarrow> run" where
  "new_run t i tid start stop =
     run_view.extend (snapshot.extend (snapshot.truncate t) (run_view.fields tid start stop))
       (run.fields i)"

text \<open>A row after an update, against the row before it: the same \<^verbatim>\<open>id\<close> and
  \<^verbatim>\<open>active\<close>, and the same row altogether unless its id is the one addressed.\<close>

definition same_key :: "string \<Rightarrow> train \<Rightarrow> train \<Rightarrow> bool" where
  "same_key i x y = (t_id y = t_id x \<and> active y = active x \<and> (t_id x \<noteq> Some i \<longrightarrow> y = x))"

text \<open>A list of clients against an earlier one: the earlier clients are still there, in
  their places, and each has received nothing since but \<^verbatim>\<open>running:update\<close>
  messages, after what it had.\<close>

definition is_update :: "message \<Rightarrow> bool" where
  "is_update m = (event m = ''running:update'')"

definition grows :: "client list \<Rightarrow> client list \<Rightarrow> bool" where
  "grows cs cs' =
     (length cs \<le> length cs'
      \<and> (\<forall>j<length cs. \<exists>us. outbox (cs' ! j) = outbox (cs ! j) @ us \<and> list_all is_update us))"

text \<open>Reading the output of \<^verbatim>\<open>stmtListRunning\<close>: the keys of its rows, in the order
  of the \<^verbatim>\<open>SELECT\<close> list, and the text under a key of a row.\<close>

definition running_columns :: "string list" where
  "running_columns = [''id'', ''name'', ''railway'', ''country'', ''power'', ''trainType'',
     ''numberOfCars'', ''powerType'', ''years'', ''notes'', ''location'', ''updated_at'']"

definition row_text :: "(string \<times> jsval) list \<Rightarrow> string \<Rightarrow> string" where
  "row_text row k = (case map_of row k of Some (JStr s) \<Rightarrow> s | _ \<Rightarrow> [])"

section \<open>Sample data\<close>

text \<open>Concrete rows and states on which the theorems below are instantiated.\<close>

definition sample_train :: "string \<Rightarrow> string \<Rightarrow> string \<Rightarrow> bool \<Rightarrow> string \<Rightarrow> train" where
  "sample_train i own loc act upd =
     \<lparr>name = ''Rheingold'', railway = ''DB'', country = ''DE'', power_col = ''Electric'',
      trainType = ''Passenger'', numberOfCars = 7, powerType = ''AC'', years = ''1962'',
      notes_col = [], owner = own, location = loc, t_id = Some i, active = act,
      updated_at = upd\<rparr>"

definition four_trains :: server where
  "four_trains =
     \<lparr>trains = [sample_train ''a'' ''Ann'' ''Upper loop'' True ''2024-05-01T10:00:00.000Z'',
                sample_train ''b'' ''Bob'' ''Lower loop 1'' True ''2024-05-01T11:00:00.000Z'',
                sample_train ''c'' ''Cy'' ''Upper loop'' True ''2024-05-01T12:00:00.000Z'',
                sample_train ''d'' ''Di'' ''Lower loop 2'' False ''2024-05-01T13:00:00.000Z''],
      train_runs = [], clients = [\<lparr>readyState = 1, outbox = []\<rparr>]\<rparr>"

text \<open>The same state with other owners.\<close>

definition four_trains_other_owners :: server where
  "four_trains_other_owners =
     \<lparr>trains = [sample_train ''a'' ''Eve'' ''Upper loop'' True ''2024-05-01T10:00:00.000Z'',
                sample_train ''b'' [] ''Lower loop 1'' True ''2024-05-01T11:00:00.000Z'',
                sample_train ''c'' ''Cy'' ''Upper loop'' True ''2024-05-01T12:00:00.000Z'',
                sample_train ''d'' ''Dan'' ''Lower loop 2'' False ''2024-05-01T13:00:00.000Z''],
      train_runs = [], clients = [\<lparr>readyState = 1, outbox = []\<rparr>]\<rparr>"

text \<open>A train with its owner blanked: two registries differ only in the owners of their
  trains when they agree after this.\<close>

definition erase_owner :: "train \<Rightarrow> train" where
  "erase_owner t = t\<lparr>owner := []\<rparr>"

definition sample_run :: "string \<Rightarrow> string \<Rightarrow> string \<Rightarrow> string option \<Rightarrow> run" where
  "sample_run i tid start stop =
     \<lparr>name = ''Rheingold'', railway = ''DB'', country = ''DE'', power_col = ''Electric'',
      trainType = ''Passenger'', numberOfCars = 7, powerType = ''AC'', years = ''1962'',
      notes_col = [], owner = ''Ann'', location = ''Upper loop'', train_id = tid,
      start_time = start, stop_time = stop, run_id = i\<rparr>"

text \<open>A driver that throws on every value that is neither a string nor \<^verbatim>\<open>null\<close>.\<close>

definition no_other :: "jsval \<Rightarrow> error + string option" where
  "no_other v = Inl StatementFailed"

text \<open>Train a has a closed run and a later open one; train b has an open run.\<close>

definition ledger_open :: server where
  "ledger_open =
     \<lparr>trains = [sample_train ''a'' ''Ann'' ''Upper loop'' True ''2024-05-01T10:00:00.000Z'',
                sample_train ''b'' ''Bob'' ''Lower loop 1'' True ''2024-05-01T10:30:00.000Z''],
      train_runs =
        [sample_run ''r1'' ''a'' ''2024-05-01T09:00:00.000Z'' (Some ''2024-05-01T09:30:00.000Z''),
         sample_run ''r2'' ''a'' ''2024-05-01T10:00:00.000Z'' None,
         sample_run ''r3'' ''b'' ''2024-05-01T10:30:00.000Z'' None],
      clients = []\<rparr>"

text \<open>Both runs of train a are closed already.\<close>

definition ledger_closed :: server where
  "ledger_closed =
     \<lparr>trains = [sample_train ''a'' ''Ann'' ''Upper loop'' False ''2024-05-01T10:20:00.000Z'',
                sample_train ''b'' ''Bob'' ''Lower loop 1'' True ''2024-05-01T10:30:00.000Z''],
      train_runs =
        [sample_run ''r1'' ''a'' ''2024-05-01T09:00:00.000Z'' (Some ''2024-05-01T09:30:00.000Z''),
         sample_run ''r2'' ''a'' ''2024-05-01T10:00:00.000Z'' (Some ''2024-05-01T10:20:00.000Z''),
         sample_run ''r3'' ''b'' ''2024-05-01T10:30:00.000Z'' None],
      clients = []\<rparr>"

text \<open>Train a has no run at all.\<close>

definition ledger_without :: server where
  "ledger_without =
     \<lparr>trains = [sample_train ''a'' ''Ann'' ''Upper loop'' True ''2024-05-01T10:00:00.000Z'',
                sample_train ''b'' ''Bob'' ''Lower loop 1'' True ''2024-05-01T10:30:00.000Z''],
      train_runs = [sample_run ''r3'' ''b'' ''2024-05-01T10:30:00.000Z'' None],
      clients = []\<rparr>"

text \<open>A conversion under which no string, array or object is a number; the sample
  bodies carry numbers, so it is never consulted on them.\<close>

definition nan_conv :: "jsval \<Rightarrow> jsnum" where
  "nan_conv v = NaN"

definition valid_body :: jsobj where
  "valid_body = [''name'' \<mapsto> JStr ''Rheingold'', ''railway'' \<mapsto> JStr ''DB'',
     ''country'' \<mapsto> JStr ''DE'', ''power'' \<mapsto> JStr ''Electric'',
     ''trainType'' \<mapsto> JStr ''Passenger'', ''numberOfCars'' \<mapsto> JNum (Fin 7),
     ''powerType'' \<mapsto> JStr ''AC'', ''years'' \<mapsto> JStr ''1962'',
     ''owner'' \<mapsto> JStr ''Ann'', ''location'' \<mapsto> JStr ''Upper loop'']"

text \<open>The same body with two more keys, \<^verbatim>\<open>id\<close> and \<^verbatim>\<open>updated_at\<close>.\<close>

definition body_with_id :: jsobj where
  "body_with_id =
     valid_body(''id'' \<mapsto> JStr ''x'', ''updated_at'' \<mapsto> JStr ''1999-12-31T00:00:00.000Z'')"

definition empty_server :: server where
  "empty_server = \<lparr>trains = [], train_runs = [], clients = []\<rparr>"

text \<open>A partial update that also carries the keys \<^verbatim>\<open>id\<close> and \<^verbatim>\<open>active\<close>.\<close>

definition patch_body :: jsobj where
  "patch_body = [''name'' \<mapsto> JStr ''Rheingold II'', ''numberOfCars'' \<mapsto> JNum (Fin 9),
     ''id'' \<mapsto> JStr ''zzz'', ''active'' \<mapsto> JBool False]"

text \<open>\<^verbatim>\<open>date()\<close> on the timestamps that \<^verbatim>\<open>toISOString\<close> writes: the first ten
  characters.\<close>

definition iso_date :: "string \<Rightarrow> string option" where
  "iso_date ts = Some (take 10 ts)"

text \<open>\<^verbatim>\<open>new Date(string)\<close> on four timestamps, in milliseconds since 1970.\<close>

definition sample_parse :: "string \<Rightarrow> int option" where
  "sample_parse = map_of
     [(''2024-05-01T08:00:00.000Z'', 1714550400000),
      (''2024-05-01T09:00:00.000Z'', 1714554000000),
      (''2024-05-01T10:35:00.000Z'', 1714559700000),
      (''2024-05-02T08:00:00.000Z'', 1714636800000)]"

text \<open>A run of 95 minutes on the first of May, an open run that started a day later, and
  an open run that started on the first of May at 08:00.\<close>

definition ledger_report :: server where
  "ledger_report =
     \<lparr>trains = [],
      train_runs =
        [sample_run ''r1'' ''a'' ''2024-05-01T09:00:00.000Z'' (Some ''2024-05-01T10:35:00.000Z''),
         sample_run ''r2'' ''b'' ''2024-05-02T08:00:00.000Z'' None,
         sample_run ''r3'' ''c'' ''2024-05-01T08:00:00.000Z'' None],
      clients = []\<rparr>"

text \<open>A start command, and the stop command for the train it creates.\<close>

definition start_event :: event where
  "start_event = POST valid_body ''u1'' ''u2'' ''2024-05-01T10:00:00.000Z''"

definition stop_event :: event where
  "stop_event = DELETE ''u1'' ''u3'' ''2024-05-01T11:00:00.000Z''"

section \<open>Properties of the validator\<close>

lemma truthy_string_iff: "(truthy v \<and> typeof_string v) = nonempty_string v"
  by (cases v) auto

lemma truthy_has_iff: "[] \<notin> set S \<Longrightarrow> (truthy v \<and> has S v) = one_of S v"
  by (cases v) auto

lemma isInteger_range_iff:
  "(Number_isInteger v \<and> \<not> num_lt v 0 \<and> \<not> num_gt v 100) = integer_between 0 100 v"
proof (cases v)
  case (JNum n)
  then show ?thesis by (cases n) auto
qed auto

lemma default_string_iff: "typeof_string (default_to v (JStr [])) = string_if_present v"
  by (cases v) auto

lemmas rule_defs = rule_name_def rule_railway_def rule_country_def rule_power_def
  rule_trainType_def rule_powerType_def rule_numberOfCars_def rule_years_def
  rule_location_def rule_notes_def rule_owner_def

lemmas VALID_defs = VALID_POWER_def VALID_TYPES_def VALID_POWER_TYPES_def VALID_LOCATIONS_def

lemma valid_sets_nonempty:
  "[] \<notin> set VALID_POWER" "[] \<notin> set VALID_TYPES"
  "[] \<notin> set VALID_POWER_TYPES" "[] \<notin> set VALID_LOCATIONS"
  by (simp_all add: VALID_defs)

lemma not_or_iff: "(\<not> a \<or> \<not> b) = (\<not> (a \<and> b))"
  by blast

lemma not_or3_iff: "(\<not> a \<or> b \<or> c) = (\<not> (a \<and> \<not> b \<and> \<not> c))"
  by blast

text \<open>A record passes exactly when it satisfies every rule of the contract.\<close>

lemma validateTrain_None_iff:
  "validateTrain b = None \<longleftrightarrow>
     nonempty_string (js_get b ''name'') \<and> nonempty_string (js_get b ''railway'')
     \<and> nonempty_string (js_get b ''country'') \<and> one_of VALID_POWER (js_get b ''power'')
     \<and> one_of VALID_TYPES (js_get b ''trainType'')
     \<and> integer_between 0 100 (js_get b ''numberOfCars'')
     \<and> one_of VALID_POWER_TYPES (js_get b ''powerType'')
     \<and> nonempty_string (js_get b ''years'') \<and> one_of VALID_LOCATIONS (js_get b ''location'')
     \<and> string_if_present (js_get b ''notes'') \<and> string_if_present (js_get b ''owner'')"
  unfolding validateTrain_def Let_def
    not_or_iff not_or3_iff truthy_string_iff isInteger_range_iff default_string_iff
    truthy_has_iff[OF valid_sets_nonempty(1)] truthy_has_iff[OF valid_sets_nonempty(2)]
    truthy_has_iff[OF valid_sets_nonempty(3)] truthy_has_iff[OF valid_sets_nonempty(4)]
  by simp

text \<open>C3, as amended. The message that \<^verbatim>\<open>validateTrain\<close> returns is the message of the
  first violated rule in the order name, railway, country, power, trainType, numberOfCars,
  powerType, years, location, notes, owner (and none when no rule is violated): numberOfCars
  is checked before powerType.\<close>

theorem validateTrain_first_violation:
  "validateTrain b = first_violation code_order b"
  unfolding validateTrain_def code_order_def Let_def rule_defs first_violation.simps
    fst_conv snd_conv not_or_iff not_or3_iff truthy_string_iff isInteger_range_iff
    default_string_iff
    truthy_has_iff[OF valid_sets_nonempty(1)] truthy_has_iff[OF valid_sets_nonempty(2)]
    truthy_has_iff[OF valid_sets_nonempty(3)] truthy_has_iff[OF valid_sets_nonempty(4)]
  by simp

text \<open>C3, witness: a record with an empty \<^verbatim>\<open>years\<close> and an unknown \<^verbatim>\<open>location\<close>
  gets the message for \<^verbatim>\<open>years\<close>.\<close>

theorem validateTrain_first_violation_witness:
  "validateTrain late_faults = first_violation code_order late_faults
   \<and> validateTrain late_faults = Some msg_years"
  using validateTrain_first_violation [of late_faults]
  by (simp add: code_order_def rule_defs late_faults_def js_get_def is_int_def VALID_defs)

text \<open>C3, counterexample to the claim as stated: for a record in which both
  \<^verbatim>\<open>powerType\<close> and \<^verbatim>\<open>numberOfCars\<close> are invalid, the order of the specification
  gives the \<^verbatim>\<open>powerType\<close> message, and \<^verbatim>\<open>validateTrain\<close> returns the
  \<^verbatim>\<open>numberOfCars\<close> message.\<close>

theorem validateTrain_spec_order_counterexample:
  "\<not> fst rule_powerType two_faults \<and> \<not> fst rule_numberOfCars two_faults
   \<and> first_violation spec_order two_faults = Some msg_powerType
   \<and> validateTrain two_faults = Some msg_numberOfCars
   \<and> validateTrain two_faults \<noteq> Some msg_powerType"
  by (simp add: validateTrain_def spec_order_def rule_defs two_faults_def js_get_def is_int_def
      VALID_defs msg_numberOfCars_def msg_powerType_def)

section \<open>Sorting\<close>

lemma mset_insort_by: "mset (insort_by le x xs) = add_mset x (mset xs)"
  by (induction xs) auto

lemma mset_sort_by: "mset (sort_by le xs) = mset xs"
  by (induction xs) (auto simp: sort_by_def mset_insort_by)

lemma set_sort_by: "set (sort_by le xs) = set xs"
  by (metis mset_sort_by set_mset_mset)

lemma length_sort_by: "length (sort_by le xs) = length xs"
  by (metis mset_sort_by size_mset)

lemma set_insort_by: "set (insort_by le x xs) = insert x (set xs)"
  by (induction xs) auto

lemma sorted_wrt_insort_by:
  assumes tot: "\<And>a b. le a b \<or> le b a" and tr: "\<And>a b c. le a b \<Longrightarrow> le b c \<Longrightarrow> le a c"
  shows "sorted_wrt le xs \<Longrightarrow> sorted_wrt le (insort_by le x xs)"
proof (induction xs)
  case Nil
  then show ?case by simp
next
  case (Cons y ys)
  show ?case
  proof (cases "le x y")
    case True
    have "le x z" if "z \<in> set ys" for z
      using tr[OF True] Cons.prems that by auto
    with True Cons.prems show ?thesis by auto
  next
    case False
    with tot have "le y x" by blast
    with False Cons show ?thesis by (auto simp: set_insort_by)
  qed
qed

lemma sorted_wrt_sort_by:
  assumes tot: "\<And>a b. le a b \<or> le b a" and tr: "\<And>a b c. le a b \<Longrightarrow> le b c \<Longrightarrow> le a c"
  shows "sorted_wrt le (sort_by le xs)"
proof (induction xs)
  case Nil
  then show ?case by (simp add: sort_by_def)
next
  case (Cons x xs)
  have "sort_by le (x # xs) = insort_by le x (sort_by le xs)" by (simp add: sort_by_def)
  with Cons sorted_wrt_insort_by[of le, OF tot tr] show ?case by simp
qed

text \<open>Sorting commutes with a map that respects the comparison.\<close>

lemma insort_by_map:
  assumes "\<And>a b. le' (f a) (f b) = le a b"
  shows "map f (insort_by le x xs) = insort_by le' (f x) (map f xs)"
  by (induction xs) (auto simp: assms)

lemma sort_by_map:
  assumes "\<And>a b. le' (f a) (f b) = le a b"
  shows "map f (sort_by le xs) = sort_by le' (map f xs)"
proof (induction xs)
  case Nil
  then show ?case by (simp add: sort_by_def)
next
  case (Cons x xs)
  have "map f (sort_by le (x # xs)) = map f (insort_by le x (sort_by le xs))"
    by (simp add: sort_by_def)
  also have "\<dots> = insort_by le' (f x) (map f (sort_by le xs))"
    using assms by (simp add: insort_by_map[of le' f le])
  also have "\<dots> = sort_by le' (map f (x # xs))"
    using Cons.IH by (simp add: sort_by_def)
  finally show ?case .
qed

section \<open>The list of running trains\<close>

lemma running_order_total: "running_order a b \<or> running_order b a"
  by (auto simp: running_order_def)

lemma running_order_trans: "running_order a b \<Longrightarrow> running_order b c \<Longrightarrow> running_order a c"
  by (auto simp: running_order_def)

lemma row_text_select:
  "row_text (select_running t) ''location'' = location t"
  "row_text (select_running t) ''updated_at'' = updated_at t"
  by (simp_all add: row_text_def select_running_def)

text \<open>C7. In every state of the server, the rows that \<^verbatim>\<open>GET /api/running\<close> returns
  stand, one for one and in this order, for the trains with \<^verbatim>\<open>active = 1\<close> (each as
  often as it is in the table, and no other train): every row has the twelve keys of the
  \<^verbatim>\<open>SELECT\<close> list, and under each key the value of that column of its train. The
  rows are ordered by their \<^verbatim>\<open>location\<close> ascending and, within a location, by their
  \<^verbatim>\<open>updated_at\<close> descending.\<close>

theorem listActive_active_sorted:
  "mset (running_trains (trains s)) = filter_mset active (mset (trains s))
   \<and> sorted_wrt (\<lambda>a b. location a < location b
                    \<or> (location a = location b \<and> updated_at b \<le> updated_at a))
       (running_trains (trains s))
   \<and> get_running s = Json_trains (stmtListRunning (trains s))
   \<and> map (map fst) (stmtListRunning (trains s))
       = map (\<lambda>t. running_columns) (running_trains (trains s))
   \<and> map (\<lambda>row. map_of row ''id'') (stmtListRunning (trains s))
       = map (\<lambda>t. Some (js_text (t_id t))) (running_trains (trains s))
   \<and> map (\<lambda>row. map_of row ''name'') (stmtListRunning (trains s))
       = map (\<lambda>t. Some (JStr (name t))) (running_trains (trains s))
   \<and> map (\<lambda>row. map_of row ''railway'') (stmtListRunning (trains s))
       = map (\<lambda>t. Some (JStr (railway t))) (running_trains (trains s))
   \<and> map (\<lambda>row. map_of row ''country'') (stmtListRunning (trains s))
       = map (\<lambda>t. Some (JStr (country t))) (running_trains (trains s))
   \<and> map (\<lambda>row. map_of row ''power'') (stmtListRunning (trains s))
       = map (\<lambda>t. Some (JStr (power_col t))) (running_trains (trains s))
   \<and> map (\<lambda>row. map_of row ''trainType'') (stmtListRunning (trains s))
       = map (\<lambda>t. Some (JStr (trainType t))) (running_trains (trains s))
   \<and> map (\<lambda>row. map_of row ''numberOfCars'') (stmtListRunning (trains s))
       = map (\<lambda>t. Some (js_int (numberOfCars t))) (running_trains (trains s))
   \<and> map (\<lambda>row. map_of row ''powerType'') (stmtListRunning (trains s))
       = map (\<lambda>t. Some (JStr (powerType t))) (running_trains (trains s))
   \<and> map (\<lambda>row. map_of row ''years'') (stmtListRunning (trains s))
       = map (\<lambda>t. Some (JStr (years t))) (running_trains (trains s))
   \<and> map (\<lambda>row. map_of row ''notes'') (stmtListRunning (trains s))
       = map (\<lambda>t. Some (JStr (notes_col t))) (running_trains (trains s))
   \<and> map (\<lambda>row. map_of row ''location'') (stmtListRunning (trains s))
       = map (\<lambda>t. Some (JStr (location t))) (running_trains (trains s))
   \<and> map (\<lambda>row. map_of row ''updated_at'') (stmtListRunning (trains s))
       = map (\<lambda>t. Some (JStr (updated_at t))) (running_trains (trains s))
   \<and> sorted_wrt (\<lambda>a b. row_text a ''location'' < row_text b ''location''
                    \<or> (row_text a ''location'' = row_text b ''location''
                        \<and> row_text b ''updated_at'' \<le> row_text a ''updated_at''))
       (stmtListRunning (trains s))"
proof -
  have srt: "sorted_wrt running_order (running_trains (trains s))"
    unfolding running_trains_def
    by (rule sorted_wrt_sort_by[OF running_order_total running_order_trans])
  have ms: "mset (running_trains (trains s)) = filter_mset active (mset (trains s))"
    by (simp add: running_trains_def mset_sort_by)
  have cols: "map (map fst) (stmtListRunning ts)
                = map (\<lambda>t. running_columns) (running_trains ts)" for ts
    by (simp add: stmtListRunning_def select_running_def running_columns_def)
  have vals: "map (\<lambda>row. map_of row k) (stmtListRunning ts)
        = map (\<lambda>t. map_of (select_running t) k) (running_trains ts)" for k ts
    by (simp add: stmtListRunning_def o_def)
  have out: "sorted_wrt (\<lambda>a b. row_text a ''location'' < row_text b ''location''
                    \<or> (row_text a ''location'' = row_text b ''location''
                        \<and> row_text b ''updated_at'' \<le> row_text a ''updated_at''))
       (stmtListRunning (trains s))"
    using srt
    by (simp add: stmtListRunning_def sorted_wrt_map row_text_select
        running_order_def[abs_def])
  show ?thesis
    using srt ms out
    by (simp add: cols vals get_running_def running_order_def[abs_def] select_running_def)
qed

text \<open>C7, witness: of four trains, the inactive one is left out of the response, the
  row of the train on the lower loop comes first, and of the two rows for the upper loop
  the one with the later update comes first.\<close>

theorem listActive_active_sorted_witness:
  "mset (running_trains (trains four_trains)) = filter_mset active (mset (trains four_trains))
   \<and> get_running four_trains = Json_trains (stmtListRunning (trains four_trains))
   \<and> map (map fst) (stmtListRunning (trains four_trains))
       = [running_columns, running_columns, running_columns]
   \<and> map (\<lambda>row. (map_of row ''id'', map_of row ''location'', map_of row ''updated_at''))
        (stmtListRunning (trains four_trains))
       = [(Some (JStr ''b''), Some (JStr ''Lower loop 1''),
           Some (JStr ''2024-05-01T11:00:00.000Z'')),
          (Some (JStr ''c''), Some (JStr ''Upper loop''),
           Some (JStr ''2024-05-01T12:00:00.000Z'')),
          (Some (JStr ''a''), Some (JStr ''Upper loop''),
           Some (JStr ''2024-05-01T10:00:00.000Z''))]"
proof -
  have e: "map (\<lambda>row. (map_of row ''id'', map_of row ''location'', map_of row ''updated_at''))
        (stmtListRunning (trains four_trains))
       = [(Some (JStr ''b''), Some (JStr ''Lower loop 1''),
           Some (JStr ''2024-05-01T11:00:00.000Z'')),
          (Some (JStr ''c''), Some (JStr ''Upper loop''),
           Some (JStr ''2024-05-01T12:00:00.000Z'')),
          (Some (JStr ''a''), Some (JStr ''Upper loop''),
           Some (JStr ''2024-05-01T10:00:00.000Z''))]"
    by (simp add: four_trains_def stmtListRunning_def running_trains_def sort_by_def
        sample_train_def running_order_def select_running_def)
  have l: "map (\<lambda>t. running_columns) (running_trains (trains four_trains))
             = [running_columns, running_columns, running_columns]"
    by (simp add: four_trains_def running_trains_def sort_by_def sample_train_def
        running_order_def)
  from listActive_active_sorted [of four_trains]
  have "mset (running_trains (trains four_trains))
          = filter_mset active (mset (trains four_trains))
      \<and> get_running four_trains = Json_trains (stmtListRunning (trains four_trains))
      \<and> map (map fst) (stmtListRunning (trains four_trains))
          = map (\<lambda>t. running_columns) (running_trains (trains four_trains))"
    by blast
  with e l show ?thesis by simp
qed

section \<open>The owner stays private\<close>

lemma running_trains_erase:
  "map erase_owner (running_trains ts) = running_trains (map erase_owner ts)"
proof -
  have "map erase_owner (sort_by running_order (filter active ts))
        = sort_by running_order (map erase_owner (filter active ts))"
    by (rule sort_by_map) (simp add: running_order_def erase_owner_def)
  moreover have "map erase_owner (filter active ts) = filter active (map erase_owner ts)"
    by (simp add: filter_map o_def erase_owner_def)
  ultimately show ?thesis by (simp add: running_trains_def)
qed

lemma stmtListRunning_erase: "stmtListRunning (map erase_owner ts) = stmtListRunning ts"
proof -
  have "select_running \<circ> erase_owner = select_running"
    by (rule ext) (simp add: select_running_def erase_owner_def)
  then show ?thesis
    unfolding stmtListRunning_def running_trains_erase[symmetric] map_map by simp
qed

text \<open>C8. Two states whose registries differ only in the owners of their trains (and
  that have the same clients) give the same list of running trains, send the same
  \<^verbatim>\<open>running:init\<close> message to a new connection and the same \<^verbatim>\<open>running:update\<close>
  messages in a broadcast; and no row of the list has a key \<^verbatim>\<open>owner\<close>.\<close>

theorem owner_not_in_public_output:
  assumes "map erase_owner (trains s1) = map erase_owner (trains s2)"
    and "clients s1 = clients s2"
  shows "get_running s1 = get_running s2
    \<and> clients (connection s1) = clients (connection s2)
    \<and> clients (publish s1) = clients (publish s2)
    \<and> (\<forall>row \<in> set (stmtListRunning (trains s1)). ''owner'' \<notin> fst ` set row)"
proof -
  have "stmtListRunning (trains s1) = stmtListRunning (trains s2)"
    using assms(1) stmtListRunning_erase by metis
  moreover have "\<forall>row \<in> set (stmtListRunning (trains s1)). ''owner'' \<notin> fst ` set row"
    by (auto simp: stmtListRunning_def select_running_def)
  ultimately show ?thesis using assms(2)
    by (simp add: get_running_def connection_def publish_def)
qed

text \<open>C8, witness: the four sample trains under two different sets of owners.\<close>

theorem owner_not_in_public_output_witness:
  "map erase_owner (trains four_trains) = map erase_owner (trains four_trains_other_owners)
   \<and> clients four_trains = clients four_trains_other_owners
   \<and> trains four_trains \<noteq> trains four_trains_other_owners
   \<and> get_running four_trains = get_running four_trains_other_owners
   \<and> clients (connection four_trains) = clients (connection four_trains_other_owners)
   \<and> clients (publish four_trains) = clients (publish four_trains_other_owners)
   \<and> list_all (\<lambda>row. ''owner'' \<notin> fst ` set row) (stmtListRunning (trains four_trains))"
proof -
  have h1: "map erase_owner (trains four_trains)
            = map erase_owner (trains four_trains_other_owners)"
    by (simp add: four_trains_def four_trains_other_owners_def erase_owner_def sample_train_def)
  have h2: "clients four_trains = clients four_trains_other_owners"
    by (simp add: four_trains_def four_trains_other_owners_def)
  have h3: "trains four_trains \<noteq> trains four_trains_other_owners"
    by (simp add: four_trains_def four_trains_other_owners_def sample_train_def)
  show ?thesis
    using owner_not_in_public_output [OF h1 h2] h1 h2 h3 by (simp add: list_all_iff)
qed

section \<open>Stopping a train\<close>

lemma start_desc_total: "start_desc a b \<or> start_desc b a"
  by (auto simp: start_desc_def)

lemma start_desc_trans: "start_desc a b \<Longrightarrow> start_desc b c \<Longrightarrow> start_desc a c"
  by (auto simp: start_desc_def)

lemma limit1_None: "limit1 xs = None \<longleftrightarrow> xs = []"
  by (cases xs) auto

lemma limit1_sort_None: "limit1 (sort_by le xs) = None \<longleftrightarrow> xs = []"
  by (metis limit1_None length_0_conv length_sort_by)

text \<open>\<^verbatim>\<open>ORDER BY start_time DESC LIMIT 1\<close> returns a row whose \<^verbatim>\<open>start_time\<close> is
  greatest.\<close>

lemma limit1_sort_desc:
  assumes "limit1 (sort_by start_desc xs) = Some r"
  shows "r \<in> set xs \<and> (\<forall>x\<in>set xs. start_time x \<le> start_time r)"
proof -
  from assms obtain ys where ys: "sort_by start_desc xs = r # ys"
    by (cases "sort_by start_desc xs") auto
  have "sorted_wrt start_desc (r # ys)"
    using sorted_wrt_sort_by[of start_desc xs, OF start_desc_total start_desc_trans] ys by simp
  then have "\<forall>x\<in>set (r # ys). start_time x \<le> start_time r"
    by (auto simp: start_desc_def)
  moreover have "set (r # ys) = set xs"
    using ys set_sort_by[of start_desc xs] by simp
  ultimately show ?thesis by auto
qed

text \<open>Under the primary key, \<^verbatim>\<open>WHERE id=@id\<close> touches one row.\<close>

lemma stmtUpdateRunStop_distinct:
  assumes "distinct (map run_id rs)" and "r \<in> set rs"
  shows "stmtUpdateRunStop (run_id r) st rs = set_stop r st rs"
  unfolding stmtUpdateRunStop_def set_stop_def
proof (rule map_cong[OF refl])
  fix x assume "x \<in> set rs"
  with assms have "run_id x = run_id r \<longleftrightarrow> x = r"
    by (meson distinct_map inj_onD)
  then show "(if run_id x = run_id r then x\<lparr>stop_time := Some st\<rparr> else x)
             = (if x = r then x\<lparr>stop_time := Some st\<rparr> else x)" by simp
qed

lemma set_stop_mem:
  "r \<in> set rs \<Longrightarrow> r\<lparr>stop_time := Some st\<rparr> \<in> set (set_stop r st rs)"
  by (force simp: set_stop_def)

lemma bind_text_nn_JStr: "bind_text_nn other (JStr s) = Inr s"
  by (simp add: bind_text_nn_def and_then_def)

lemma is_int_of_int: "is_int (of_int n)"
  by (simp add: is_int_def)

text \<open>The values read from a row of \<^verbatim>\<open>trains\<close> bind to the columns they came from.\<close>

lemma bind_snapshot_select_all:
  "bind_snapshot other (map_of (select_all t)) = Inr (snapshot.truncate t)"
  by (simp add: bind_snapshot_def select_all_def js_get_def bind_text_nn_JStr and_then_def
      js_int_def is_int_of_int snapshot.truncate_def)

lemma new_run_fields:
  "run_id (new_run t i tid start stop) = i"
  "train_id (new_run t i tid start stop) = tid"
  "start_time (new_run t i tid start stop) = start"
  "stop_time (new_run t i tid start stop) = stop"
  "snapshot.truncate (new_run t i tid start stop) = snapshot.truncate t"
  by (simp_all add: new_run_def snapshot.defs run_view.defs run.defs)

lemma stmtInsertRun_select_all:
  "stmtInsertRun other i tid (map_of (select_all t)) start stop rs =
     (if i \<in> set (map run_id rs) then Inl StatementFailed
      else Inr (rs @ [new_run t i tid start stop]))"
  by (simp add: stmtInsertRun_def bind_snapshot_select_all and_then_def new_run_def
      snapshot.defs)

lemma close_run_open:
  assumes d: "distinct (map run_id rs)" and ne: "open_runs T rs \<noteq> []"
  shows "\<exists>r\<in>set (open_runs T rs). (\<forall>x\<in>set (open_runs T rs). start_time x \<le> start_time r)
           \<and> close_run other T t uuid now rs = Inr (set_stop r now rs)"
proof -
  from ne obtain r where r: "limit1 (sort_by start_desc (open_runs T rs)) = Some r"
    using limit1_sort_None[of start_desc "open_runs T rs"]
    by (cases "limit1 (sort_by start_desc (open_runs T rs))") auto
  from limit1_sort_desc[OF r] have mx: "r \<in> set (open_runs T rs)"
    "\<forall>x\<in>set (open_runs T rs). start_time x \<le> start_time r" by auto
  from mx(1) have "r \<in> set rs" by (simp add: open_runs_def)
  then have "stmtUpdateRunStop (run_id r) now rs = set_stop r now rs"
    by (rule stmtUpdateRunStop_distinct[OF d])
  moreover have "stmtFindOpenRun T rs = Some (run_id r)"
    using r by (simp add: stmtFindOpenRun_def open_runs_def)
  ultimately have "close_run other T t uuid now rs = Inr (set_stop r now rs)"
    by (simp add: close_run_def)
  with mx show ?thesis by blast
qed

lemma close_run_latest:
  assumes d: "distinct (map run_id rs)" and nn: "[] \<notin> set (map run_id rs)"
    and no: "open_runs T rs = []" and ne: "runs_of T rs \<noteq> []"
  shows "\<exists>r\<in>set (runs_of T rs). (\<forall>x\<in>set (runs_of T rs). start_time x \<le> start_time r)
           \<and> close_run other T t uuid now rs = Inr (set_stop r now rs)"
proof -
  from ne obtain r where r: "limit1 (sort_by start_desc (runs_of T rs)) = Some r"
    using limit1_sort_None[of start_desc "runs_of T rs"]
    by (cases "limit1 (sort_by start_desc (runs_of T rs))") auto
  from limit1_sort_desc[OF r] have mx: "r \<in> set (runs_of T rs)"
    "\<forall>x\<in>set (runs_of T rs). start_time x \<le> start_time r" by auto
  from mx(1) have rin: "r \<in> set rs" by (simp add: runs_of_def)
  then have upd: "stmtUpdateRunStop (run_id r) now rs = set_stop r now rs"
    by (rule stmtUpdateRunStop_distinct[OF d])
  from rin nn have rne: "run_id r \<noteq> []" by (metis image_eqI set_map)
  have "stmtFindOpenRun T rs = None"
    using no by (simp add: stmtFindOpenRun_def open_runs_def sort_by_def)
  moreover have "stmtFindLatestRun T rs = Some (run_id r)"
    using r by (simp add: stmtFindLatestRun_def runs_of_def)
  ultimately have "close_run other T t uuid now rs = Inr (set_stop r now rs)"
    using upd rne by (simp add: close_run_def)
  with mx show ?thesis by blast
qed

lemma open_runs_subset: "runs_of T rs = [] \<Longrightarrow> open_runs T rs = []"
  by (auto simp: runs_of_def open_runs_def filter_empty_conv)

lemma close_run_none:
  assumes fresh: "uuid \<notin> set (map run_id rs)" and no: "runs_of T rs = []"
  shows "close_run other T t uuid now rs = Inr (rs @ [new_run t uuid T now (Some now)])"
proof -
  have "stmtFindOpenRun T rs = None"
    using open_runs_subset[OF no] by (simp add: stmtFindOpenRun_def open_runs_def sort_by_def)
  moreover have "stmtFindLatestRun T rs = None"
    using no by (simp add: stmtFindLatestRun_def runs_of_def sort_by_def)
  ultimately show ?thesis using fresh
    by (simp add: close_run_def stmtInsertRun_select_all)
qed

lemma delete_running_found:
  assumes "stmtGetById T (trains s) = Some t"
    and "close_run other T t uuid now (train_runs s) = Inr rs"
  shows "fst (delete_running other T uuid now s) = Ok_true"
    and "train_runs (snd (delete_running other T uuid now s)) = rs"
    and "trains (snd (delete_running other T uuid now s)) = stmtDeactivate T now (trains s)"
  using assms by (simp_all add: delete_running_def publish_def)

lemmas stop_eval = delete_running_def close_run_def stmtGetById_def stmtFindOpenRun_def
  stmtFindLatestRun_def stmtUpdateRunStop_def stmtDeactivate_def publish_def broadcast_def
  sort_by_def start_desc_def sample_run_def sample_train_def open_runs_def runs_of_def
  stmtInsertRun_select_all

text \<open>C1. A stop command on an existing train id T, in a ledger whose run ids are
  distinct and non-empty (the primary key, and the ids being UUIDs) and with a fresh
  UUID at hand, succeeds and follows the three tiers: (1) if T has open runs, one of them
  with the greatest \<^verbatim>\<open>start_time\<close> gets \<^verbatim>\<open>stop_time\<close> set to the stop timestamp and
  nothing else in the ledger changes; (2) otherwise, if T has runs, one of them with the
  greatest \<^verbatim>\<open>start_time\<close> gets its \<^verbatim>\<open>stop_time\<close> overwritten; (3) otherwise one run
  is appended with \<^verbatim>\<open>start_time = stop_time =\<close> the stop timestamp and the fields of
  the train. In every case the ledger then holds a run of T whose \<^verbatim>\<open>stop_time\<close> is the
  stop timestamp.\<close>

theorem stop_three_tier_fallback:
  assumes ex: "stmtGetById T (trains s) = Some t"
    and d: "distinct (map run_id (train_runs s))"
    and nn: "[] \<notin> set (map run_id (train_runs s))"
    and fresh: "uuid \<notin> set (map run_id (train_runs s))"
  shows "fst (delete_running other T uuid now s) = Ok_true
    \<and> (open_runs T (train_runs s) \<noteq> [] \<longrightarrow>
         (\<exists>r\<in>set (open_runs T (train_runs s)).
            (\<forall>x\<in>set (open_runs T (train_runs s)). start_time x \<le> start_time r)
            \<and> train_runs (snd (delete_running other T uuid now s))
                = set_stop r now (train_runs s)))
    \<and> (open_runs T (train_runs s) = [] \<and> runs_of T (train_runs s) \<noteq> [] \<longrightarrow>
         (\<exists>r\<in>set (runs_of T (train_runs s)).
            (\<forall>x\<in>set (runs_of T (train_runs s)). start_time x \<le> start_time r)
            \<and> train_runs (snd (delete_running other T uuid now s))
                = set_stop r now (train_runs s)))
    \<and> (runs_of T (train_runs s) = [] \<longrightarrow>
         (\<exists>r. train_runs (snd (delete_running other T uuid now s)) = train_runs s @ [r]
            \<and> train_id r = T \<and> start_time r = now \<and> stop_time r = Some now
            \<and> snapshot.truncate r = snapshot.truncate t))
    \<and> (\<exists>r\<in>set (train_runs (snd (delete_running other T uuid now s))).
          train_id r = T \<and> stop_time r = Some now)"
proof -
  let ?rs = "train_runs s"
  consider (tier1) "open_runs T ?rs \<noteq> []"
    | (tier2) "open_runs T ?rs = []" "runs_of T ?rs \<noteq> []"
    | (tier3) "runs_of T ?rs = []" by blast
  then show ?thesis
  proof cases
    case tier1
    from close_run_open[OF d tier1, of other t uuid now] obtain r where
      r: "r \<in> set (open_runs T ?rs)"
         "\<forall>x\<in>set (open_runs T ?rs). start_time x \<le> start_time r"
         "close_run other T t uuid now ?rs = Inr (set_stop r now ?rs)" by blast
    have ne: "runs_of T ?rs \<noteq> []" using tier1 open_runs_subset by blast
    have rin: "r \<in> set ?rs" "train_id r = T" using r(1) by (simp_all add: open_runs_def)
    have "r\<lparr>stop_time := Some now\<rparr> \<in> set (set_stop r now ?rs)"
      using rin(1) by (rule set_stop_mem)
    then have "\<exists>x\<in>set (set_stop r now ?rs). train_id x = T \<and> stop_time x = Some now"
      using rin(2) by (intro bexI[of _ "r\<lparr>stop_time := Some now\<rparr>"]) simp_all
    with r tier1 ne delete_running_found[OF ex r(3)] show ?thesis by auto
  next
    case tier2
    from close_run_latest[OF d nn tier2, of other t uuid now] obtain r where
      r: "r \<in> set (runs_of T ?rs)"
         "\<forall>x\<in>set (runs_of T ?rs). start_time x \<le> start_time r"
         "close_run other T t uuid now ?rs = Inr (set_stop r now ?rs)" by blast
    have rin: "r \<in> set ?rs" "train_id r = T" using r(1) by (simp_all add: runs_of_def)
    have "r\<lparr>stop_time := Some now\<rparr> \<in> set (set_stop r now ?rs)"
      using rin(1) by (rule set_stop_mem)
    then have "\<exists>x\<in>set (set_stop r now ?rs). train_id x = T \<and> stop_time x = Some now"
      using rin(2) by (intro bexI[of _ "r\<lparr>stop_time := Some now\<rparr>"]) simp_all
    with r tier2 delete_running_found[OF ex r(3)] show ?thesis by auto
  next
    case tier3
    note cr = close_run_none[OF fresh tier3, of other t now]
    from tier3 open_runs_subset have "open_runs T ?rs = []" by blast
    with tier3 delete_running_found[OF ex cr] show ?thesis
      by (auto simp: new_run_fields)
  qed
qed

text \<open>C1, witness: stopping train a at 11:00 in the three sample ledgers. With both runs
  of a closed, the later one (closed at 10:20) is overwritten; with an open run, that one
  is closed; with no run, a run from 11:00 to 11:00 is appended.\<close>

theorem stop_three_tier_fallback_witness:
  "stmtGetById ''a'' (trains ledger_closed)
     = Some (sample_train ''a'' ''Ann'' ''Upper loop'' False ''2024-05-01T10:20:00.000Z'')
   \<and> distinct (map run_id (train_runs ledger_closed))
   \<and> [] \<notin> set (map run_id (train_runs ledger_closed))
   \<and> ''r9'' \<notin> set (map run_id (train_runs ledger_closed))
   \<and> open_runs ''a'' (train_runs ledger_closed) = []
   \<and> runs_of ''a'' (train_runs ledger_closed) \<noteq> []
   \<and> fst (delete_running no_other ''a'' ''r9'' ''2024-05-01T11:00:00.000Z'' ledger_closed)
       = Ok_true
   \<and> (\<exists>r\<in>set (train_runs (snd (delete_running no_other ''a'' ''r9''
                   ''2024-05-01T11:00:00.000Z'' ledger_closed))).
         train_id r = ''a'' \<and> stop_time r = Some ''2024-05-01T11:00:00.000Z'')
   \<and> train_runs (snd (delete_running no_other ''a'' ''r9'' ''2024-05-01T11:00:00.000Z''
                        ledger_closed))
       = [sample_run ''r1'' ''a'' ''2024-05-01T09:00:00.000Z'' (Some ''2024-05-01T09:30:00.000Z''),
          sample_run ''r2'' ''a'' ''2024-05-01T10:00:00.000Z'' (Some ''2024-05-01T11:00:00.000Z''),
          sample_run ''r3'' ''b'' ''2024-05-01T10:30:00.000Z'' None]
   \<and> train_runs (snd (delete_running no_other ''a'' ''r9'' ''2024-05-01T11:00:00.000Z''
                        ledger_open))
       = [sample_run ''r1'' ''a'' ''2024-05-01T09:00:00.000Z'' (Some ''2024-05-01T09:30:00.000Z''),
          sample_run ''r2'' ''a'' ''2024-05-01T10:00:00.000Z'' (Some ''2024-05-01T11:00:00.000Z''),
          sample_run ''r3'' ''b'' ''2024-05-01T10:30:00.000Z'' None]
   \<and> train_runs (snd (delete_running no_other ''a'' ''r9'' ''2024-05-01T11:00:00.000Z''
                        ledger_without))
       = [sample_run ''r3'' ''b'' ''2024-05-01T10:30:00.000Z'' None,
          sample_run ''r9'' ''a'' ''2024-05-01T11:00:00.000Z'' (Some ''2024-05-01T11:00:00.000Z'')]"
proof -
  have h1: "stmtGetById ''a'' (trains ledger_closed)
     = Some (sample_train ''a'' ''Ann'' ''Upper loop'' False ''2024-05-01T10:20:00.000Z'')"
    by (simp add: ledger_closed_def stmtGetById_def sample_train_def)
  have h2: "distinct (map run_id (train_runs ledger_closed))"
    by (simp add: ledger_closed_def sample_run_def)
  have h3: "[] \<notin> set (map run_id (train_runs ledger_closed))"
    by (simp add: ledger_closed_def sample_run_def)
  have h4: "''r9'' \<notin> set (map run_id (train_runs ledger_closed))"
    by (simp add: ledger_closed_def sample_run_def)
  have h5: "open_runs ''a'' (train_runs ledger_closed) = []"
    "runs_of ''a'' (train_runs ledger_closed) \<noteq> []"
    by (simp_all add: ledger_closed_def sample_run_def open_runs_def runs_of_def)
  have e1: "train_runs (snd (delete_running no_other ''a'' ''r9'' ''2024-05-01T11:00:00.000Z''
                        ledger_closed))
       = [sample_run ''r1'' ''a'' ''2024-05-01T09:00:00.000Z'' (Some ''2024-05-01T09:30:00.000Z''),
          sample_run ''r2'' ''a'' ''2024-05-01T10:00:00.000Z'' (Some ''2024-05-01T11:00:00.000Z''),
          sample_run ''r3'' ''b'' ''2024-05-01T10:30:00.000Z'' None]"
    by (simp add: ledger_closed_def stop_eval)
  have e2: "train_runs (snd (delete_running no_other ''a'' ''r9'' ''2024-05-01T11:00:00.000Z''
                        ledger_open))
       = [sample_run ''r1'' ''a'' ''2024-05-01T09:00:00.000Z'' (Some ''2024-05-01T09:30:00.000Z''),
          sample_run ''r2'' ''a'' ''2024-05-01T10:00:00.000Z'' (Some ''2024-05-01T11:00:00.000Z''),
          sample_run ''r3'' ''b'' ''2024-05-01T10:30:00.000Z'' None]"
    by (simp add: ledger_open_def stop_eval)
  have e3: "train_runs (snd (delete_running no_other ''a'' ''r9'' ''2024-05-01T11:00:00.000Z''
                        ledger_without))
       = [sample_run ''r3'' ''b'' ''2024-05-01T10:30:00.000Z'' None,
          sample_run ''r9'' ''a'' ''2024-05-01T11:00:00.000Z'' (Some ''2024-05-01T11:00:00.000Z'')]"
    by (simp add: ledger_without_def stop_eval new_run_def snapshot.defs run_view.defs run.defs)
  from stop_three_tier_fallback [OF h1 h2 h3 h4, of no_other "''2024-05-01T11:00:00.000Z''"]
  have "fst (delete_running no_other ''a'' ''r9'' ''2024-05-01T11:00:00.000Z'' ledger_closed)
          = Ok_true
      \<and> (\<exists>r\<in>set (train_runs (snd (delete_running no_other ''a'' ''r9''
                   ''2024-05-01T11:00:00.000Z'' ledger_closed))).
         train_id r = ''a'' \<and> stop_time r = Some ''2024-05-01T11:00:00.000Z'')"
    by blast
  with h1 h2 h3 h4 h5 e1 e2 e3 show ?thesis by blast
qed

text \<open>C5. A stop command on an existing train that has exactly one open run (in a ledger
  whose run ids are distinct, as the primary key makes them) sets the \<^verbatim>\<open>stop_time\<close> of
  that run to the stop timestamp and leaves every other run of the ledger, of this train
  or of another, as it was.\<close>

theorem stop_single_open_run_frame:
  assumes ex: "stmtGetById T (trains s) = Some t"
    and d: "distinct (map run_id (train_runs s))"
    and one: "open_runs T (train_runs s) = [r]"
  shows "fst (delete_running other T uuid now s) = Ok_true
    \<and> train_runs (snd (delete_running other T uuid now s))
        = map (\<lambda>x. if x = r then x\<lparr>stop_time := Some now\<rparr> else x) (train_runs s)"
proof -
  have ne: "open_runs T (train_runs s) \<noteq> []" using one by simp
  from close_run_open[OF d ne, of other t uuid now] one
  have "close_run other T t uuid now (train_runs s) = Inr (set_stop r now (train_runs s))"
    by simp
  from delete_running_found[OF ex this] show ?thesis by (simp add: set_stop_def)
qed

text \<open>C5, witness: train a of the first sample ledger has the one open run r2.\<close>

theorem stop_single_open_run_frame_witness:
  "stmtGetById ''a'' (trains ledger_open)
     = Some (sample_train ''a'' ''Ann'' ''Upper loop'' True ''2024-05-01T10:00:00.000Z'')
   \<and> distinct (map run_id (train_runs ledger_open))
   \<and> open_runs ''a'' (train_runs ledger_open)
       = [sample_run ''r2'' ''a'' ''2024-05-01T10:00:00.000Z'' None]
   \<and> fst (delete_running no_other ''a'' ''r9'' ''2024-05-01T11:00:00.000Z'' ledger_open)
       = Ok_true
   \<and> train_runs (snd (delete_running no_other ''a'' ''r9'' ''2024-05-01T11:00:00.000Z''
                        ledger_open))
       = map (\<lambda>x. if x = sample_run ''r2'' ''a'' ''2024-05-01T10:00:00.000Z'' None
                   then x\<lparr>stop_time := Some ''2024-05-01T11:00:00.000Z''\<rparr> else x)
           (train_runs ledger_open)"
proof -
  have h1: "stmtGetById ''a'' (trains ledger_open)
     = Some (sample_train ''a'' ''Ann'' ''Upper loop'' True ''2024-05-01T10:00:00.000Z'')"
    by (simp add: ledger_open_def stmtGetById_def sample_train_def)
  have h2: "distinct (map run_id (train_runs ledger_open))"
    by (simp add: ledger_open_def sample_run_def)
  have h3: "open_runs ''a'' (train_runs ledger_open)
       = [sample_run ''r2'' ''a'' ''2024-05-01T10:00:00.000Z'' None]"
    by (simp add: ledger_open_def sample_run_def open_runs_def)
  from stop_single_open_run_frame [OF h1 h2 h3, of no_other "''r9''" "''2024-05-01T11:00:00.000Z''"]
    h1 h2 h3
  show ?thesis by blast
qed

section \<open>Starting a train\<close>

lemma nonempty_stringE: "nonempty_string v \<Longrightarrow> \<exists>s. v = JStr s"
  by (cases v) auto

lemma one_ofE: "one_of S v \<Longrightarrow> \<exists>s. v = JStr s"
  by (cases v) auto

lemma integer_betweenE: "integer_between lo hi v \<Longrightarrow> \<exists>q. v = JNum (Fin q) \<and> is_int q"
proof (cases v)
  case (JNum n)
  assume "integer_between lo hi v"
  with JNum show ?thesis by (cases n) auto
qed auto

lemma typeof_stringE: "typeof_string v \<Longrightarrow> \<exists>s. v = JStr s"
  by (cases v) auto

text \<open>Binding succeeds on a parameter object whose values have the types that the
  validator establishes.\<close>

lemma bind_snapshot_typed:
  assumes "nonempty_string (js_get p ''name'')" "nonempty_string (js_get p ''railway'')"
    "nonempty_string (js_get p ''country'')" "one_of VALID_POWER (js_get p ''power'')"
    "one_of VALID_TYPES (js_get p ''trainType'')"
    "integer_between 0 100 (js_get p ''numberOfCars'')"
    "one_of VALID_POWER_TYPES (js_get p ''powerType'')"
    "nonempty_string (js_get p ''years'')" "one_of VALID_LOCATIONS (js_get p ''location'')"
    "typeof_string (js_get p ''notes'')" "typeof_string (js_get p ''owner'')"
  shows "\<exists>snap. bind_snapshot other p = Inr snap"
proof -
  from assms(1) obtain s1 where 1: "js_get p ''name'' = JStr s1"
    using nonempty_stringE by blast
  from assms(2) obtain s2 where 2: "js_get p ''railway'' = JStr s2"
    using nonempty_stringE by blast
  from assms(3) obtain s3 where 3: "js_get p ''country'' = JStr s3"
    using nonempty_stringE by blast
  from assms(4) obtain s4 where 4: "js_get p ''power'' = JStr s4"
    using one_ofE by blast
  from assms(5) obtain s5 where 5: "js_get p ''trainType'' = JStr s5"
    using one_ofE by blast
  from assms(6) obtain q where 6: "js_get p ''numberOfCars'' = JNum (Fin q)" "is_int q"
    using integer_betweenE by blast
  from assms(7) obtain s7 where 7: "js_get p ''powerType'' = JStr s7"
    using one_ofE by blast
  from assms(8) obtain s8 where 8: "js_get p ''years'' = JStr s8"
    using nonempty_stringE by blast
  from assms(9) obtain s9 where 9: "js_get p ''location'' = JStr s9"
    using one_ofE by blast
  from assms(10) obtain s10 where 10: "js_get p ''notes'' = JStr s10"
    using typeof_stringE by blast
  from assms(11) obtain s11 where 11: "js_get p ''owner'' = JStr s11"
    using typeof_stringE by blast
  show ?thesis
    by (simp add: bind_snapshot_def 1 2 3 4 5 6 7 8 9 10 11 bind_text_nn_JStr and_then_def)
qed

lemma nullish_string: "string_if_present v \<Longrightarrow> typeof_string (nullish v (JStr []))"
  by (cases v) auto

lemma js_get_post_row:
  "k \<noteq> ''id'' \<Longrightarrow> k \<noteq> ''updated_at'' \<Longrightarrow> k \<noteq> ''notes'' \<Longrightarrow> k \<noteq> ''owner'' \<Longrightarrow>
     js_get (post_row uuid1 now m) k = js_get m k"
  by (simp add: post_row_def js_get_def map_add_def split: option.splits)

lemma js_get_post_row_notes:
  "js_get (post_row uuid1 now m) ''notes'' = nullish (js_get m ''notes'') (JStr [])"
  "js_get (post_row uuid1 now m) ''owner'' = nullish (js_get m ''owner'') (JStr [])"
  by (simp_all add: post_row_def js_get_def)

text \<open>The keys \<^verbatim>\<open>id\<close> and \<^verbatim>\<open>updated_at\<close> of \<^verbatim>\<open>row\<close> hold the generated values
  only when the body has no such keys.\<close>

lemma js_get_post_row_id:
  "js_get (post_row uuid1 now m) ''id'' = (case m ''id'' of None \<Rightarrow> JStr uuid1 | Some v \<Rightarrow> v)"
  "js_get (post_row uuid1 now m) ''updated_at''
     = (case m ''updated_at'' of None \<Rightarrow> JStr now | Some v \<Rightarrow> v)"
  by (simp_all add: post_row_def js_get_def map_add_def split: option.splits)

lemma bind_snapshot_post_row:
  assumes "validateTrain m = None"
  shows "\<exists>snap. bind_snapshot other (post_row uuid1 now m) = Inr snap"
  using assms unfolding validateTrain_None_iff
  by (intro bind_snapshot_typed)
    (simp_all add: js_get_post_row js_get_post_row_notes nullish_string)

text \<open>A body that fails validation is rejected and nothing is written.\<close>

lemma post_running_rejected:
  "validateTrain (normalize conv body) = Some err \<Longrightarrow>
     post_running conv other body uuid1 uuid2 now s = (Bad err, s)"
  by (simp add: post_running_def)

text \<open>A valid body without the keys \<^verbatim>\<open>id\<close> and \<^verbatim>\<open>updated_at\<close>, with two fresh
  UUIDs: one train and one open run are appended, the train has the generated id, and the
  run has the train's fields and its \<^verbatim>\<open>updated_at\<close> as \<^verbatim>\<open>start_time\<close>.\<close>

lemma post_running_created:
  assumes v: "validateTrain (normalize conv body) = None"
    and noid: "body ''id'' = None" and noupd: "body ''updated_at'' = None"
    and fresh1: "Some uuid1 \<notin> set (map t_id (trains s))"
    and fresh2: "uuid2 \<notin> set (map run_id (train_runs s))"
  shows "\<exists>t r. post_running conv other body uuid1 uuid2 now s
             = (Created uuid1,
                publish (s\<lparr>trains := trains s @ [t], train_runs := train_runs s @ [r]\<rparr>))
           \<and> t_id t = Some uuid1 \<and> active t \<and> updated_at t = now
           \<and> run_id r = uuid2 \<and> train_id r = uuid1 \<and> start_time r = now
           \<and> stop_time r = None \<and> snapshot.truncate r = snapshot.truncate t"
proof -
  let ?row = "post_row uuid1 now (normalize conv body)"
  from bind_snapshot_post_row[OF v] obtain snap where
    snap: "bind_snapshot other ?row = Inr snap" by blast
  have id: "js_get ?row ''id'' = JStr uuid1" "js_get ?row ''updated_at'' = JStr now"
    using noid noupd by (simp_all add: js_get_post_row_id normalize_def)
  let ?t = "snapshot.extend snap (train.fields (Some uuid1) True now)"
  let ?r = "new_run snap uuid2 uuid1 now None"
  have ins: "stmtInsert other ?row (trains s) = Inr (trains s @ [?t])"
    using fresh1 by (simp add: stmtInsert_def id snap and_then_def bind_text_nn_JStr)
  have insr: "stmtInsertRun other uuid2 uuid1 ?row now None (train_runs s)
                = Inr (train_runs s @ [?r])"
    using fresh2 by (simp add: stmtInsertRun_def snap and_then_def new_run_def snapshot.defs)
  have "post_running conv other body uuid1 uuid2 now s
          = (Created uuid1,
             publish (s\<lparr>trains := trains s @ [?t], train_runs := train_runs s @ [?r]\<rparr>))"
    by (simp add: post_running_def v ins insr)
  moreover have "t_id ?t = Some uuid1 \<and> active ?t \<and> updated_at ?t = now
                 \<and> snapshot.truncate ?t = snap"
    by (simp add: snapshot.defs train.defs)
  moreover have "snapshot.truncate snap = snap" by (simp add: snapshot.defs)
  ultimately show ?thesis
    by (intro exI[of _ ?t] exI[of _ ?r]) (simp add: new_run_fields)
qed

lemmas post_eval = post_running_def normalize_def post_row_def validateTrain_def js_get_def
  is_int_def VALID_defs stmtInsert_def stmtInsertRun_def bind_snapshot_def bind_text_nn_def
  and_then_def publish_def broadcast_def map_add_def snapshot.defs train.defs run_view.defs
  run.defs

text \<open>C4, the handler at a body that passes validation and carries the keys \<^verbatim>\<open>id\<close>
  and \<^verbatim>\<open>updated_at\<close>: the response names the generated id u1, the train is stored
  under the id x of the body with the \<^verbatim>\<open>updated_at\<close> of the body, and the run refers to
  u1 and starts at the time of the request. The claim asks for a fresh id and for
  \<^verbatim>\<open>start_time\<close> equal to the train's \<^verbatim>\<open>updated_at\<close>.\<close>

theorem post_running_body_overrides_id:
  "fst (post_running nan_conv no_other body_with_id ''u1'' ''u2'' ''2024-05-01T10:00:00.000Z''
          empty_server) = Created ''u1''
   \<and> trains (snd (post_running nan_conv no_other body_with_id ''u1'' ''u2''
                     ''2024-05-01T10:00:00.000Z'' empty_server))
       = [sample_train ''x'' ''Ann'' ''Upper loop'' True ''1999-12-31T00:00:00.000Z'']
   \<and> train_runs (snd (post_running nan_conv no_other body_with_id ''u1'' ''u2''
                         ''2024-05-01T10:00:00.000Z'' empty_server))
       = [sample_run ''u2'' ''u1'' ''2024-05-01T10:00:00.000Z'' None]"
  by (simp add: post_eval body_with_id_def valid_body_def empty_server_def sample_train_def
      sample_run_def)

section \<open>The two writes of a mutation\<close>

lemma stmtInsert_appends:
  "stmtInsert other row ts = Inr ts' \<Longrightarrow> \<exists>t. ts' = ts @ [t] \<and> active t"
  by (auto simp: stmtInsert_def and_then_def snapshot.defs train.defs
      split: sum.splits if_splits)

text \<open>C2, as amended. The two writes of a mutation are separate statements, the one on
  the registry first, and each is committed by itself. For a start command that passes
  validation: if the insert into \<^verbatim>\<open>trains\<close> fails, nothing is written; if it succeeds
  and the insert into \<^verbatim>\<open>train_runs\<close> fails, the request fails and the new train stays
  in the registry. For a stop command on an existing train: if the write to the ledger
  fails, the request fails and the train stays deactivated.\<close>

theorem writes_commit_separately:
  "(validateTrain (normalize conv body) = None \<longrightarrow>
      (stmtInsert other (post_row uuid1 now (normalize conv body)) (trains s) = Inl e \<longrightarrow>
         post_running conv other body uuid1 uuid2 now s = (Server_error, s))
      \<and> (stmtInsert other (post_row uuid1 now (normalize conv body)) (trains s) = Inr ts
          \<and> stmtInsertRun other uuid2 uuid1 (post_row uuid1 now (normalize conv body)) now None
                (train_runs s) = Inl e \<longrightarrow>
         post_running conv other body uuid1 uuid2 now s = (Server_error, s\<lparr>trains := ts\<rparr>)
         \<and> (\<exists>t. ts = trains s @ [t] \<and> active t)))
   \<and> (stmtGetById i (trains s) = Some t
       \<and> close_run other i t uuid now (train_runs s) = Inl e \<longrightarrow>
        delete_running other i uuid now s
          = (Server_error, s\<lparr>trains := stmtDeactivate i now (trains s)\<rparr>))"
  by (auto simp: post_running_def delete_running_def dest: stmtInsert_appends)

text \<open>C2, witness: stopping train a, which has no run, when the UUID drawn for the new
  run is the id r3 of a run in the table. The insert fails, and train a stays
  deactivated.\<close>

theorem writes_commit_separately_witness:
  "stmtGetById ''a'' (trains ledger_without)
     = Some (sample_train ''a'' ''Ann'' ''Upper loop'' True ''2024-05-01T10:00:00.000Z'')
   \<and> close_run no_other ''a''
        (sample_train ''a'' ''Ann'' ''Upper loop'' True ''2024-05-01T10:00:00.000Z'')
        ''r3'' ''2024-05-01T11:00:00.000Z'' (train_runs ledger_without) = Inl StatementFailed
   \<and> delete_running no_other ''a'' ''r3'' ''2024-05-01T11:00:00.000Z'' ledger_without
       = (Server_error,
          ledger_without\<lparr>trains :=
            [sample_train ''a'' ''Ann'' ''Upper loop'' False ''2024-05-01T11:00:00.000Z'',
             sample_train ''b'' ''Bob'' ''Lower loop 1'' True ''2024-05-01T10:30:00.000Z'']\<rparr>)"
proof -
  have h1: "stmtGetById ''a'' (trains ledger_without)
     = Some (sample_train ''a'' ''Ann'' ''Upper loop'' True ''2024-05-01T10:00:00.000Z'')"
    by (simp add: ledger_without_def stmtGetById_def sample_train_def)
  have h2: "close_run no_other ''a''
        (sample_train ''a'' ''Ann'' ''Upper loop'' True ''2024-05-01T10:00:00.000Z'')
        ''r3'' ''2024-05-01T11:00:00.000Z'' (train_runs ledger_without) = Inl StatementFailed"
    by (simp add: ledger_without_def close_run_def stmtFindOpenRun_def stmtFindLatestRun_def
        sort_by_def sample_run_def stmtInsertRun_select_all)
  have h3: "stmtDeactivate ''a'' ''2024-05-01T11:00:00.000Z'' (trains ledger_without)
      = [sample_train ''a'' ''Ann'' ''Upper loop'' False ''2024-05-01T11:00:00.000Z'',
         sample_train ''b'' ''Bob'' ''Lower loop 1'' True ''2024-05-01T10:30:00.000Z'']"
    by (simp add: ledger_without_def stmtDeactivate_def sample_train_def)
  from writes_commit_separately [where conv = nan_conv and body = valid_body
      and other = no_other and ?uuid1.0 = "''u1''" and ?uuid2.0 = "''u2''" and ts = "[]"
      and now = "''2024-05-01T11:00:00.000Z''" and s = ledger_without
      and e = StatementFailed and i = "''a''" and uuid = "''r3''"
      and t = "sample_train ''a'' ''Ann'' ''Upper loop'' True ''2024-05-01T10:00:00.000Z''"]
    h1 h2
  have "delete_running no_other ''a'' ''r3'' ''2024-05-01T11:00:00.000Z'' ledger_without
       = (Server_error,
          ledger_without\<lparr>trains :=
            stmtDeactivate ''a'' ''2024-05-01T11:00:00.000Z'' (trains ledger_without)\<rparr>)"
    by blast
  with h1 h2 h3 show ?thesis by simp
qed

text \<open>C2, counterexample to the claim as stated: a valid start command for which the
  UUID drawn for the run is the id r1 of a run in the table. The insert into
  \<^verbatim>\<open>train_runs\<close> fails and the ledger is unchanged, and the new train is in the
  registry all the same.\<close>

theorem start_not_atomic_counterexample:
  "stmtInsertRun no_other ''r1'' ''u1''
      (post_row ''u1'' ''2024-05-01T11:00:00.000Z'' (normalize nan_conv valid_body))
      ''2024-05-01T11:00:00.000Z'' None (train_runs ledger_open) = Inl StatementFailed
   \<and> fst (post_running nan_conv no_other valid_body ''u1'' ''r1'' ''2024-05-01T11:00:00.000Z''
            ledger_open) = Server_error
   \<and> train_runs (snd (post_running nan_conv no_other valid_body ''u1'' ''r1''
                         ''2024-05-01T11:00:00.000Z'' ledger_open))
       = train_runs ledger_open
   \<and> trains (snd (post_running nan_conv no_other valid_body ''u1'' ''r1''
                     ''2024-05-01T11:00:00.000Z'' ledger_open))
       = trains ledger_open
           @ [sample_train ''u1'' ''Ann'' ''Upper loop'' True ''2024-05-01T11:00:00.000Z'']
   \<and> trains (snd (post_running nan_conv no_other valid_body ''u1'' ''r1''
                     ''2024-05-01T11:00:00.000Z'' ledger_open))
       \<noteq> trains ledger_open"
  by (simp add: post_eval valid_body_def ledger_open_def sample_train_def sample_run_def)

section \<open>Editing a train\<close>

lemma stmtUpdate_id:
  assumes "js_get m ''id'' = JStr i" and "stmtUpdate other m ts = Inr ts'"
  shows "\<exists>snap u. bind_snapshot other m = Inr snap
     \<and> bind_text_nn other (js_get m ''updated_at'') = Inr u
     \<and> ts' = map (\<lambda>t. if t_id t = Some i
                      then snapshot.extend snap (train.fields (t_id t) (active t) u)
                      else t) ts"
  using assms by (auto simp: stmtUpdate_def and_then_def split: sum.splits)

lemma updated_row_same_key:
  "t_id (snapshot.extend snap (train.fields k a u)) = k"
  "active (snapshot.extend snap (train.fields k a u)) = a"
  "updated_at (snapshot.extend snap (train.fields k a u)) = u"
  by (simp_all add: snapshot.defs train.defs)

lemma same_key_refl: "list_all2 (same_key i) ts ts"
  by (simp add: list_all2_same same_key_def)

text \<open>\<^verbatim>\<open>id\<close> comes last in the spread, so \<^verbatim>\<open>merged.id\<close> is the id of the URL
  whatever the body holds.\<close>

lemma js_get_merged_id: "js_get (patch_merged conv t i body) ''id'' = JStr i"
  by (simp add: patch_merged_def js_get_def Let_def)

lemma patch_running_frame:
  assumes ex: "stmtGetById i (trains s) = Some t"
  shows "list_all2 (same_key i) (trains s) (trains (snd (patch_running conv other i body now s)))
       \<and> train_runs (snd (patch_running conv other i body now s)) = train_runs s"
proof (cases "validateTrain (patch_merged conv t i body)")
  case (Some err)
  with ex show ?thesis by (simp add: patch_running_def same_key_refl)
next
  case None
  let ?m = "(patch_merged conv t i body)(''updated_at'' \<mapsto> JStr now)"
  show ?thesis
  proof (cases "stmtUpdate other ?m (trains s)")
    case (Inl e)
    with ex None show ?thesis by (simp add: patch_running_def same_key_refl)
  next
    case (Inr ts)
    have "js_get ?m ''id'' = JStr i"
      using js_get_merged_id[of conv t i body] by (simp add: js_get_def)
    from stmtUpdate_id[OF this Inr] obtain snap u where
      ts: "ts = map (\<lambda>t. if t_id t = Some i
                      then snapshot.extend snap (train.fields (t_id t) (active t) u)
                      else t) (trains s)"
      by blast
    have "list_all2 (same_key i) (trains s) ts"
      unfolding ts list_all2_map2
      by (rule list_all2_refl) (simp add: same_key_def updated_row_same_key)
    with ex None Inr show ?thesis by (simp add: patch_running_def publish_def)
  qed
qed

lemma string_present: "string_if_present v \<Longrightarrow> v \<noteq> JUndefined \<Longrightarrow> typeof_string v"
  by (cases v) auto

text \<open>The row always has \<^verbatim>\<open>notes\<close> and \<^verbatim>\<open>owner\<close>, and JSON has no
  \<^verbatim>\<open>undefined\<close>.\<close>

lemma js_get_merged_notes:
  assumes "JUndefined \<notin> ran body"
  shows "js_get (patch_merged conv t i body) ''notes'' \<noteq> JUndefined"
    "js_get (patch_merged conv t i body) ''owner'' \<noteq> JUndefined"
  using assms
  by (auto simp: patch_merged_def js_get_def Let_def map_add_def select_all_def ran_def
      split: option.splits)

lemma js_get_upd_other: "k \<noteq> k' \<Longrightarrow> js_get (m(k' \<mapsto> v)) k = js_get m k"
  by (simp add: js_get_def)

lemma patch_running_ok:
  assumes ex: "stmtGetById i (trains s) = Some t"
    and v: "validateTrain (patch_merged conv t i body) = None"
    and json: "JUndefined \<notin> ran body"
  shows "fst (patch_running conv other i body now s) = Ok_true
     \<and> (\<forall>y\<in>set (trains (snd (patch_running conv other i body now s))).
           t_id y = Some i \<longrightarrow> updated_at y = now)"
proof -
  let ?m0 = "patch_merged conv t i body"
  let ?m = "?m0(''updated_at'' \<mapsto> JStr now)"
  have "\<exists>snap. bind_snapshot other ?m = Inr snap"
    using v js_get_merged_notes[OF json, of conv t i] unfolding validateTrain_None_iff
    by (intro bind_snapshot_typed) (simp_all add: js_get_upd_other string_present)
  then obtain snap where snap: "bind_snapshot other ?m = Inr snap" by blast
  have id: "js_get ?m ''id'' = JStr i"
    using js_get_merged_id[of conv t i body] by (simp add: js_get_def)
  have u: "js_get ?m ''updated_at'' = JStr now" by (simp add: js_get_def)
  have upd: "stmtUpdate other ?m (trains s)
      = Inr (map (\<lambda>t. if t_id t = Some i
                       then snapshot.extend snap (train.fields (t_id t) (active t) now)
                       else t) (trains s))"
    by (simp add: stmtUpdate_def snap id u and_then_def bind_text_nn_JStr)
  show ?thesis using ex v
    by (auto simp: patch_running_def upd publish_def updated_row_same_key)
qed

lemmas patch_eval = patch_running_def patch_merged_def select_all_def validateTrain_def
  js_get_def is_int_def VALID_defs stmtUpdate_def stmtGetById_def bind_snapshot_def
  bind_text_nn_def js_int_def and_then_def publish_def broadcast_def map_add_def
  snapshot.defs train.defs

text \<open>C10. For an existing train (active or not) and a partial update whose merged
  record passes validation, whatever keys the body holds: the table \<^verbatim>\<open>trains\<close> after
  the request has, row by row, the same \<^verbatim>\<open>id\<close> and the same \<^verbatim>\<open>active\<close> as before,
  the rows with another id are unchanged, and the ledger is unchanged. When the body is
  JSON (no value is \<^verbatim>\<open>undefined\<close>) the request succeeds and the addressed row gets the
  new \<^verbatim>\<open>updated_at\<close>.\<close>

theorem patch_keeps_id_and_active:
  assumes ex: "stmtGetById i (trains s) = Some t"
    and v: "validateTrain (patch_merged conv t i body) = None"
  shows "list_all2 (\<lambda>x y. t_id y = t_id x \<and> active y = active x
                          \<and> (t_id x \<noteq> Some i \<longrightarrow> y = x))
           (trains s) (trains (snd (patch_running conv other i body now s)))
     \<and> train_runs (snd (patch_running conv other i body now s)) = train_runs s
     \<and> (JUndefined \<notin> ran body \<longrightarrow>
          fst (patch_running conv other i body now s) = Ok_true
          \<and> (\<forall>y\<in>set (trains (snd (patch_running conv other i body now s))).
                t_id y = Some i \<longrightarrow> updated_at y = now))"
  using patch_running_frame[OF ex, of conv other body now]
    patch_running_ok[OF ex v, of other now]
  by (simp add: same_key_def[abs_def])

text \<open>C10, witness: train a gets a new name and a new number of cars from a body that also
  says \<^verbatim>\<open>id: "zzz"\<close> and \<^verbatim>\<open>active: false\<close>; it keeps its id and stays active.\<close>

theorem patch_keeps_id_and_active_witness:
  "stmtGetById ''a'' (trains ledger_open)
     = Some (sample_train ''a'' ''Ann'' ''Upper loop'' True ''2024-05-01T10:00:00.000Z'')
   \<and> validateTrain (patch_merged nan_conv
        (sample_train ''a'' ''Ann'' ''Upper loop'' True ''2024-05-01T10:00:00.000Z'')
        ''a'' patch_body) = None
   \<and> list_all2 (\<lambda>x y. t_id y = t_id x \<and> active y = active x
                       \<and> (t_id x \<noteq> Some ''a'' \<longrightarrow> y = x))
        (trains ledger_open)
        (trains (snd (patch_running nan_conv no_other ''a'' patch_body
                        ''2024-05-01T11:00:00.000Z'' ledger_open)))
   \<and> patch_running nan_conv no_other ''a'' patch_body ''2024-05-01T11:00:00.000Z'' ledger_open
       = (Ok_true,
          ledger_open\<lparr>trains :=
            [(sample_train ''a'' ''Ann'' ''Upper loop'' True ''2024-05-01T11:00:00.000Z'')
               \<lparr>name := ''Rheingold II'', numberOfCars := 9\<rparr>,
             sample_train ''b'' ''Bob'' ''Lower loop 1'' True ''2024-05-01T10:30:00.000Z'']\<rparr>)"
proof -
  have h1: "stmtGetById ''a'' (trains ledger_open)
     = Some (sample_train ''a'' ''Ann'' ''Upper loop'' True ''2024-05-01T10:00:00.000Z'')"
    by (simp add: ledger_open_def stmtGetById_def sample_train_def)
  have h2: "validateTrain (patch_merged nan_conv
        (sample_train ''a'' ''Ann'' ''Upper loop'' True ''2024-05-01T10:00:00.000Z'')
        ''a'' patch_body) = None"
    by (simp add: patch_eval patch_body_def sample_train_def)
  have e: "patch_running nan_conv no_other ''a'' patch_body ''2024-05-01T11:00:00.000Z''
             ledger_open
       = (Ok_true,
          ledger_open\<lparr>trains :=
            [(sample_train ''a'' ''Ann'' ''Upper loop'' True ''2024-05-01T11:00:00.000Z'')
               \<lparr>name := ''Rheingold II'', numberOfCars := 9\<rparr>,
             sample_train ''b'' ''Bob'' ''Lower loop 1'' True ''2024-05-01T10:30:00.000Z'']\<rparr>)"
    by (simp add: patch_eval patch_body_def sample_train_def ledger_open_def)
  from patch_keeps_id_and_active [OF h1 h2, of no_other "''2024-05-01T11:00:00.000Z''"]
  have "list_all2 (\<lambda>x y. t_id y = t_id x \<and> active y = active x
                       \<and> (t_id x \<noteq> Some ''a'' \<longrightarrow> y = x))
        (trains ledger_open)
        (trains (snd (patch_running nan_conv no_other ''a'' patch_body
                        ''2024-05-01T11:00:00.000Z'' ledger_open)))"
    by blast
  with h1 h2 e show ?thesis by blast
qed

section \<open>The report of a day\<close>

text \<open>On a number that is not negative, the remainder of JavaScript is \<open>mod\<close>, and
  \<^verbatim>\<open>Math.floor\<close> of a quotient of integers is \<open>div\<close>.\<close>

lemma smod_nonneg: "0 \<le> (a::int) \<Longrightarrow> a smod 60 = a mod 60"
  by (simp add: smod_int_alt_def sgn_if)

lemma floor_div60: "\<lfloor>(of_int n :: rat) / 60\<rfloor> = n div 60"
  using floor_divide_of_int_eq[of n 60, where 'a = rat] by simp

lemma report_duration_closed:
  assumes "parse (start_time r) = Some a" "stop_time r = Some st" "st \<noteq> []"
    "parse st = Some b"
  shows "report_duration parse now_ms r = Some (spec_duration a b)"
  using assms
  by (simp add: report_duration_def spec_duration_def Let_def Math_round_def round_def
      floor_div60 smod_nonneg)

lemma report_duration_open:
  assumes "parse (start_time r) = Some a" "stop_time r = None"
  shows "report_duration parse now_ms r = Some (spec_duration a now_ms)"
  using assms
  by (simp add: report_duration_def spec_duration_def Let_def Math_round_def round_def
      floor_div60 smod_nonneg)

lemma spec_duration_95:
  "spec_duration a (a + 95 * 60000) = \<lparr>minutes = 95, hours = 1, remainderMinutes = 35\<rparr>"
proof -
  have "(of_int (a + 95 * 60000 - a) :: rat) / 60000 = 95" by simp
  then show ?thesis by (simp add: spec_duration_def)
qed

lemma start_asc_total: "start_asc a b \<or> start_asc b a"
  by (auto simp: start_asc_def)

lemma start_asc_trans: "start_asc a b \<Longrightarrow> start_asc b c \<Longrightarrow> start_asc a c"
  by (auto simp: start_asc_def)

lemma truncate_fields:
  "start_time (run_view.truncate r) = start_time r"
  "stop_time (run_view.truncate r) = stop_time r"
  "train_id (run_view.truncate r) = train_id r"
  by (simp_all add: run_view.defs)

lemma extend_fields:
  "start_time (run_view.extend r (report_row.fields x)) = start_time r"
  "stop_time (run_view.extend r (report_row.fields x)) = stop_time r"
  "duration (run_view.extend r (report_row.fields x)) = x"
  "run_view.truncate (run_view.extend r (report_row.fields x)) = run_view.truncate r"
  by (simp_all add: run_view.defs report_row.defs)

lemma truncate_idem: "run_view.truncate (r :: run_view) = r"
  by (simp add: run_view.defs)

lemma mset_stmtRunsByDate:
  "mset (stmtRunsByDate sql_date d rs)
     = image_mset run_view.truncate (filter_mset (started_on sql_date d) (mset rs))"
  by (simp add: stmtRunsByDate_def mset_sort_by started_on_def[abs_def])

lemma sorted_stmtRunsByDate: "sorted (map start_time (stmtRunsByDate sql_date d rs))"
proof -
  have "sorted_wrt start_asc
          (sort_by start_asc (filter (\<lambda>r. sql_date (start_time r) = Some d) rs))"
    by (rule sorted_wrt_sort_by[OF start_asc_total start_asc_trans])
  then show ?thesis
    by (simp add: stmtRunsByDate_def sorted_map start_asc_def[abs_def]
        truncate_fields[abs_def] o_def)
qed

lemma report_rows_view:
  "map run_view.truncate (report_rows sql_date parse now_ms d rs) = stmtRunsByDate sql_date d rs"
  by (simp add: report_rows_def o_def extend_fields truncate_idem)

lemma report_rows_start:
  "map start_time (report_rows sql_date parse now_ms d rs)
     = map start_time (stmtRunsByDate sql_date d rs)"
  by (simp add: report_rows_def o_def extend_fields)

lemma report_rows_duration:
  assumes "row \<in> set (report_rows sql_date parse now_ms d rs)"
  shows "duration row = report_duration parse now_ms (run_view.truncate row)"
  using assms by (auto simp: report_rows_def extend_fields truncate_idem)

text \<open>C6. For a date query \<^verbatim>\<open>YYYY-MM-DD\<close> the response is the list of report rows;
  its rows are, one for one, the selected columns of the runs whose \<^verbatim>\<open>start_time\<close>
  falls on that day; it is ordered by \<^verbatim>\<open>start_time\<close> ascending; and for a row whose
  \<^verbatim>\<open>start_time\<close> parses to the instant a, the duration is computed from a and the end
  (the parsed \<^verbatim>\<open>stop_time\<close> when the run is closed, the current instant when it is
  open) as \<open>durationMinutes = max 0 (round ((end - a) / 60000))\<close>, \<open>hours =
  durationMinutes div 60\<close>, \<open>remainderMinutes = durationMinutes mod 60\<close>. A run that
  stopped 95 minutes after it started gets minutes 95, hours 1, remainderMinutes 35. (A
  \<^verbatim>\<open>stop_time\<close> that is present is not the empty string: every one is written by
  \<^verbatim>\<open>toISOString\<close>.)\<close>

theorem report_rows_and_durations:
  assumes "date_regex d"
  shows "get_reports_runs sql_date parse now_ms (Some d) s
           = Json_runs (report_rows sql_date parse now_ms d (train_runs s))
    \<and> mset (map run_view.truncate (report_rows sql_date parse now_ms d (train_runs s)))
        = image_mset run_view.truncate
            (filter_mset (started_on sql_date d) (mset (train_runs s)))
    \<and> sorted (map start_time (report_rows sql_date parse now_ms d (train_runs s)))
    \<and> (\<forall>row\<in>set (report_rows sql_date parse now_ms d (train_runs s)). \<forall>a b st.
          parse (start_time row) = Some a \<longrightarrow>
            (stop_time row = Some st \<and> st \<noteq> [] \<and> parse st = Some b
               \<longrightarrow> duration row = Some (spec_duration a b))
          \<and> (stop_time row = None \<longrightarrow> duration row = Some (spec_duration a now_ms))
          \<and> (stop_time row = Some st \<and> st \<noteq> [] \<and> parse st = Some (a + 95 * 60000)
               \<longrightarrow> duration row = Some \<lparr>minutes = 95, hours = 1, remainderMinutes = 35\<rparr>))"
proof -
  have d: "d \<noteq> []" using assms by auto
  have 1: "get_reports_runs sql_date parse now_ms (Some d) s
           = Json_runs (report_rows sql_date parse now_ms d (train_runs s))"
    using assms d by (simp add: get_reports_runs_def report_rows_def)
  have 4: "duration row = Some (spec_duration a b)"
    if "row \<in> set (report_rows sql_date parse now_ms d (train_runs s))"
      "parse (start_time row) = Some a" "stop_time row = Some st" "st \<noteq> []"
      "parse st = Some b"
    for row a b st
    using report_rows_duration[OF that(1)] that(2-)
    by (simp add: report_duration_closed[where a = a and b = b and st = st] truncate_fields)
  have 5: "duration row = Some (spec_duration a now_ms)"
    if "row \<in> set (report_rows sql_date parse now_ms d (train_runs s))"
      "parse (start_time row) = Some a" "stop_time row = None"
    for row a
    using report_rows_duration[OF that(1)] that(2-)
    by (simp add: report_duration_open[where a = a] truncate_fields)
  show ?thesis
    using 1 4 5 spec_duration_95
    by (simp add: report_rows_view mset_stmtRunsByDate report_rows_start
        sorted_stmtRunsByDate)
qed

text \<open>C6, witness: the report for the first of May, asked at 10:20:40. The open run from
  08:00 comes first with 141 minutes (140 minutes and 40 seconds, rounded), then the run
  from 09:00 to 10:35 with 95 minutes; the run of the second of May is absent.\<close>

theorem report_rows_and_durations_witness:
  "date_regex ''2024-05-01''
   \<and> get_reports_runs iso_date sample_parse 1714558840000 (Some ''2024-05-01'') ledger_report
       = Json_runs (report_rows iso_date sample_parse 1714558840000 ''2024-05-01''
                      (train_runs ledger_report))
   \<and> sorted (map start_time (report_rows iso_date sample_parse 1714558840000 ''2024-05-01''
                                 (train_runs ledger_report)))
   \<and> map (\<lambda>row. (train_id row, start_time row, duration row))
        (report_rows iso_date sample_parse 1714558840000 ''2024-05-01''
           (train_runs ledger_report))
       = [(''c'', ''2024-05-01T08:00:00.000Z'',
           Some \<lparr>minutes = 141, hours = 2, remainderMinutes = 21\<rparr>),
          (''a'', ''2024-05-01T09:00:00.000Z'',
           Some \<lparr>minutes = 95, hours = 1, remainderMinutes = 35\<rparr>)]"
proof -
  have h: "date_regex ''2024-05-01''" by (simp add: is_digit_def)
  have fl: "\<lfloor>(847::rat) / 6\<rfloor> = 141" "\<lfloor>(191::rat) / 2\<rfloor> = 95"
    by (simp_all add: floor_eq_iff)
  have e: "map (\<lambda>row. (train_id row, start_time row, duration row))
        (report_rows iso_date sample_parse 1714558840000 ''2024-05-01''
           (train_runs ledger_report))
       = [(''c'', ''2024-05-01T08:00:00.000Z'',
           Some \<lparr>minutes = 141, hours = 2, remainderMinutes = 21\<rparr>),
          (''a'', ''2024-05-01T09:00:00.000Z'',
           Some \<lparr>minutes = 95, hours = 1, remainderMinutes = 35\<rparr>)]"
    by (simp add: report_rows_def stmtRunsByDate_def ledger_report_def sample_run_def
        iso_date_def sort_by_def start_asc_def run_view.defs report_row.defs
        report_duration_def sample_parse_def Math_round_def fl floor_div60 smod_int_alt_def)
  from report_rows_and_durations [OF h, of iso_date sample_parse 1714558840000 ledger_report]
  have "get_reports_runs iso_date sample_parse 1714558840000 (Some ''2024-05-01'') ledger_report
       = Json_runs (report_rows iso_date sample_parse 1714558840000 ''2024-05-01''
                      (train_runs ledger_report))
     \<and> sorted (map start_time (report_rows iso_date sample_parse 1714558840000 ''2024-05-01''
                                 (train_runs ledger_report)))"
    by blast
  with h e show ?thesis by blast
qed

section \<open>What a viewer receives\<close>

lemma grows_refl: "grows cs cs"
  by (simp add: grows_def)

lemma grows_trans:
  assumes "grows a b" "grows b c"
  shows "grows a c"
  unfolding grows_def
proof (intro conjI allI impI)
  show "length a \<le> length c" using assms by (simp add: grows_def)
next
  fix j assume j: "j < length a"
  with assms(1) obtain us where
    us: "outbox (b ! j) = outbox (a ! j) @ us" "list_all is_update us"
    by (auto simp: grows_def)
  from j assms(1) have "j < length b" by (simp add: grows_def)
  with assms(2) obtain vs where
    vs: "outbox (c ! j) = outbox (b ! j) @ vs" "list_all is_update vs"
    by (auto simp: grows_def)
  from us vs
  have "outbox (c ! j) = outbox (a ! j) @ (us @ vs) \<and> list_all is_update (us @ vs)"
    by simp
  then show "\<exists>ws. outbox (c ! j) = outbox (a ! j) @ ws \<and> list_all is_update ws" by blast
qed

lemma grows_broadcast: "grows cs (broadcast ''running:update'' pl cs)"
  unfolding grows_def broadcast_def
proof (intro conjI allI impI)
  show "length cs \<le> length (map (\<lambda>c. if readyState c = 1
          then c\<lparr>outbox := outbox c @ [\<lparr>event = ''running:update'', payload = pl\<rparr>]\<rparr>
          else c) cs)"
    by simp
next
  fix j assume "j < length cs"
  then show "\<exists>us. outbox (map (\<lambda>c. if readyState c = 1
          then c\<lparr>outbox := outbox c @ [\<lparr>event = ''running:update'', payload = pl\<rparr>]\<rparr>
          else c) cs ! j) = outbox (cs ! j) @ us \<and> list_all is_update us"
    by (cases "readyState (cs ! j) = 1") (simp_all add: is_update_def)
qed

lemma grows_post:
  "grows (clients s) (clients (snd (post_running conv other body u1 u2 now s)))"
  by (auto simp: post_running_def publish_def grows_refl grows_broadcast Let_def
      split: option.splits sum.splits)

lemma grows_patch:
  "grows (clients s) (clients (snd (patch_running conv other i body now s)))"
  by (auto simp: patch_running_def publish_def grows_refl grows_broadcast Let_def
      split: option.splits sum.splits)

lemma grows_delete:
  "grows (clients s) (clients (snd (delete_running other i u now s)))"
  by (auto simp: delete_running_def publish_def grows_refl grows_broadcast Let_def
      split: option.splits sum.splits)

lemma grows_connection: "grows (clients s) (clients (connection s))"
  by (simp add: grows_def connection_def nth_append)

lemma grows_socket: "grows cs (cs[k := (cs ! k)\<lparr>readyState := st\<rparr>])"
proof -
  have "outbox (cs[k := (cs ! k)\<lparr>readyState := st\<rparr>] ! j) = outbox (cs ! j)"
    if "j < length cs" for j
    using that by (cases "j = k") simp_all
  then show ?thesis by (simp add: grows_def)
qed

lemma grows_step: "grows (clients s) (clients (step conv other s e))"
  by (cases e)
    (simp_all add: grows_post grows_patch grows_delete grows_connection grows_socket
      grows_refl)

lemma grows_run: "grows (clients s) (clients (run_events conv other s es))"
proof (induction es arbitrary: s)
  case Nil
  then show ?case by (simp add: run_events_def grows_refl)
next
  case (Cons e es)
  have "run_events conv other s (e # es) = run_events conv other (step conv other s e) es"
    by (simp add: run_events_def)
  with grows_trans[OF grows_step[of s conv other e] Cons.IH[of "step conv other s e"]]
  show ?case by simp
qed

lemma run_events_append:
  "run_events conv other s (es1 @ e # es2)
     = run_events conv other (step conv other (run_events conv other s es1) e) es2"
  by (simp add: run_events_def)

text \<open>C9. Take any sequence of events in which a viewer connects, after the events
  \<open>es1\<close> and before the events \<open>es2\<close>. The viewer is the client at the next free place
  of \<^verbatim>\<open>wss.clients\<close>; at the end, the messages sent to it are a
  \<^verbatim>\<open>running:init\<close> message whose payload is the list of running trains of the state in
  which it connected, followed by \<^verbatim>\<open>running:update\<close> messages only.\<close>

theorem init_before_any_update:
  "length (clients (run_events conv other s0 es1))
     < length (clients (run_events conv other s0 (es1 @ CONNECT # es2)))
   \<and> (\<exists>us. outbox (clients (run_events conv other s0 (es1 @ CONNECT # es2))
                      ! length (clients (run_events conv other s0 es1)))
             = \<lparr>event = ''running:init'',
                payload = stmtListRunning (trains (run_events conv other s0 es1))\<rparr> # us
           \<and> list_all (\<lambda>m. event m = ''running:update'') us)"
proof -
  let ?s1 = "run_events conv other s0 es1"
  let ?c = "connection ?s1"
  let ?s2 = "run_events conv other ?c es2"
  let ?k = "length (clients ?s1)"
  have s2: "run_events conv other s0 (es1 @ CONNECT # es2) = ?s2"
    by (simp add: run_events_append)
  have k: "?k < length (clients ?c)" by (simp add: connection_def)
  have o: "outbox (clients ?c ! ?k)
             = [\<lparr>event = ''running:init'', payload = stmtListRunning (trains ?s1)\<rparr>]"
    by (simp add: connection_def)
  from grows_run[of ?c conv other es2] k obtain us where
    "length (clients ?c) \<le> length (clients ?s2)"
    "outbox (clients ?s2 ! ?k) = outbox (clients ?c ! ?k) @ us" "list_all is_update us"
    by (auto simp: grows_def)
  with k o show ?thesis unfolding s2 by (auto simp: is_update_def[abs_def])
qed

text \<open>C9, witness: a train is started, a viewer connects, the train is stopped. The
  viewer has received the list with the one train as \<^verbatim>\<open>running:init\<close> and then the
  empty list as \<^verbatim>\<open>running:update\<close>.\<close>

theorem init_before_any_update_witness:
  "length (clients (run_events nan_conv no_other empty_server [start_event]))
     < length (clients (run_events nan_conv no_other empty_server
                          ([start_event] @ CONNECT # [stop_event])))
   \<and> run_events nan_conv no_other empty_server [start_event]
       = \<lparr>trains = [sample_train ''u1'' ''Ann'' ''Upper loop'' True ''2024-05-01T10:00:00.000Z''],
          train_runs = [sample_run ''u2'' ''u1'' ''2024-05-01T10:00:00.000Z'' None],
          clients = []\<rparr>
   \<and> clients (run_events nan_conv no_other empty_server
                 ([start_event] @ CONNECT # [stop_event]))
       = [\<lparr>readyState = 1,
           outbox =
             [\<lparr>event = ''running:init'',
               payload = [select_running (sample_train ''u1'' ''Ann'' ''Upper loop'' True
                                            ''2024-05-01T10:00:00.000Z'')]\<rparr>,
              \<lparr>event = ''running:update'', payload = []\<rparr>]\<rparr>]"
proof -
  have e1: "run_events nan_conv no_other empty_server [start_event]
       = \<lparr>trains = [sample_train ''u1'' ''Ann'' ''Upper loop'' True ''2024-05-01T10:00:00.000Z''],
          train_runs = [sample_run ''u2'' ''u1'' ''2024-05-01T10:00:00.000Z'' None],
          clients = []\<rparr>"
    by (simp add: run_events_def start_event_def post_eval valid_body_def empty_server_def
        sample_train_def sample_run_def)
  have e2: "clients (run_events nan_conv no_other empty_server
                 ([start_event] @ CONNECT # [stop_event]))
       = [\<lparr>readyState = 1,
           outbox =
             [\<lparr>event = ''running:init'',
               payload = [select_running (sample_train ''u1'' ''Ann'' ''Upper loop'' True
                                            ''2024-05-01T10:00:00.000Z'')]\<rparr>,
              \<lparr>event = ''running:update'', payload = []\<rparr>]\<rparr>]"
    by (simp add: run_events_def start_event_def stop_event_def post_eval valid_body_def
        empty_server_def connection_def stmtListRunning_def running_trains_def sort_by_def
        stop_eval new_run_def sample_train_def)
  from init_before_any_update [of nan_conv no_other empty_server "[start_event]"
      "[stop_event]"]
  have "length (clients (run_events nan_conv no_other empty_server [start_event]))
     < length (clients (run_events nan_conv no_other empty_server
                          ([start_event] @ CONNECT # [stop_event])))"
    by blast
  with e1 e2 show ?thesis by blast
qed

end
